theory Spec2Isabelle
  imports Complex_Main
begin

section \<open>Python values, errors and the logger\<close>

text \<open>
  The result classes of \<^verbatim>\<open>nrv/nmod/results\<close> are Python dictionaries with attribute
  access. Every \<^verbatim>\<open>raise\<close> of the source is a value \<open>Inl e\<close> of a sum type; a call that
  returns normally is \<open>Inr v\<close>. Python floats are read as the real numbers they denote
  (no rounding, no NaN), Python ints as \<open>int\<close> or \<open>nat\<close>.
\<close>

datatype py_error =
  NRV_Error string
  | AttributeError
  | KeyError
  | IndexError
  | ZeroDivisionError
  | ValueError
  | TypeError

text \<open>
  Modelled from the spec: \<^verbatim>\<open>rise_error\<close> of \<^verbatim>\<open>backend.log_interface\<close>, which is not among
  the source files. The specification calls an unrecognized \<^verbatim>\<open>ax_type\<close> a fatal input error
  that "must stop the call immediately (raise)": the call ends with the error.
\<close>

definition rise_error :: "string \<Rightarrow> py_error + 'a" where
  "rise_error msg = Inl (NRV_Error msg)"

text \<open>
  Modelled from the spec: \<^verbatim>\<open>rise_warning\<close> of \<^verbatim>\<open>backend.log_interface\<close>, not among the
  source files either. The specification describes it as a non-fatal logged warning: the
  message is appended to the log and the caller goes on. A function that may warn returns
  the list of messages it logged next to its result.
\<close>

type_synonym log = "string list"

definition rise_warning :: "string \<Rightarrow> log" where
  "rise_warning msg = [msg]"

text \<open>
  The value of an attribute that the source compares with \<^verbatim>\<open>== True\<close> and \<^verbatim>\<open>== False\<close>.
  In Python \<^verbatim>\<open>1 == True\<close> and \<^verbatim>\<open>0 == False\<close> hold, and \<^verbatim>\<open>None\<close> equals neither.
\<close>

datatype pyval = PyBool bool | PyInt int | PyNone

fun py_eq_bool :: "pyval \<Rightarrow> bool \<Rightarrow> bool" where
  "py_eq_bool (PyBool b) c = (b = c)"
| "py_eq_bool (PyInt i) c = (i = (if c then 1 else 0))"
| "py_eq_bool PyNone c = False"

text \<open>Subscripting a Python list: a negative index counts from the end.\<close>

definition list_getitem :: "'a list \<Rightarrow> int \<Rightarrow> py_error + 'a" where
  "list_getitem xs i =
     (if 0 \<le> i \<and> i < int (length xs) then Inr (xs ! nat i)
      else if i < 0 \<and> - int (length xs) \<le> i then Inr (xs ! nat (int (length xs) + i))
      else Inl IndexError)"

section \<open>Axon results and the fascicle container\<close>

text \<open>
  The attributes of an \<^verbatim>\<open>axon_results\<close> entry that \<^verbatim>\<open>fascicle_results\<close> reads. The fields
  \<open>is_blocked\<close> and \<open>n_onset\<close> are the ones \<^verbatim>\<open>block_summary\<close> writes; \<open>axon_y\<close> and \<open>axon_z\<close>
  are the attributes \<^verbatim>\<open>y\<close> and \<^verbatim>\<open>z\<close>.
\<close>

record axon_results =
  myelinated :: pyval
  diameter :: real
  axon_y :: real
  axon_z :: real
  recruited :: bool
  is_blocked :: "bool option"
  n_onset :: nat

text \<open>
  Modelled from the spec: the method \<^verbatim>\<open>is_recruited()\<close> of \<^verbatim>\<open>axon_results\<close>
  (\<^verbatim>\<open>_axons_results.py\<close> is not among the source files). The specification requires it to
  be idempotent and free of side effects, so its answer is an attribute of the entry.
\<close>

definition is_recruited :: "axon_results \<Rightarrow> bool" where
  "is_recruited a = recruited a"

text \<open>
  A \<^verbatim>\<open>fascicle_results\<close> is an ordered dictionary. Axon entries, the parameter groups
  \<^verbatim>\<open>unmyelinated_param\<close> and \<^verbatim>\<open>myelinated_param\<close> (dictionaries with a \<^verbatim>\<open>"model"\<close> key) and
  metadata fields live side by side: numbers (\<^verbatim>\<open>D\<close>, \<^verbatim>\<open>y_grav_center\<close>, \<^verbatim>\<open>z_grav_center\<close>),
  arrays of numbers (\<^verbatim>\<open>axons_diameter\<close>, \<^verbatim>\<open>axons_y\<close>, \<^verbatim>\<open>axons_z\<close>), the stimulation
  context \<^verbatim>\<open>extra_stim\<close> (an object with a \<^verbatim>\<open>plot\<close> method, or \<^verbatim>\<open>None\<close>) and any other value
  (\<open>Field\<close>). A metadata value has none of the attributes of an axon. The dictionary is the
  list of its items in insertion order; \<^verbatim>\<open>self.keys()\<close> is \<open>keys\<close> and \<^verbatim>\<open>self[k]\<close> is
  \<open>getitem\<close>.
\<close>

record param_group =
  model :: string

datatype entry =
  Axon axon_results
  | Params param_group
  | Number real
  | Numbers "real list"
  | Stimulation
  | NoneValue
  | Field

type_synonym fascicle_results = "(string \<times> entry) list"

definition keys :: "fascicle_results \<Rightarrow> string list" where
  "keys fr = map fst fr"

definition getitem :: "fascicle_results \<Rightarrow> string \<Rightarrow> py_error + entry" where
  "getitem fr k = (case map_of fr k of None \<Rightarrow> Inl KeyError | Some v \<Rightarrow> Inr v)"

text \<open>\<^verbatim>\<open>self[k]\<close> followed by an attribute access: a metadata value has no such attribute.\<close>

definition getaxon :: "fascicle_results \<Rightarrow> string \<Rightarrow> py_error + axon_results" where
  "getaxon fr k =
     (case getitem fr k of
        Inl e \<Rightarrow> Inl e
      | Inr (Axon a) \<Rightarrow> Inr a
      | Inr other \<Rightarrow> Inl AttributeError)"

text \<open>
  \<^verbatim>\<open>self.unmyelinated_param\<close> and \<^verbatim>\<open>self.myelinated_param\<close>: attribute access to a key of
  the dictionary, whose value is then subscripted with \<^verbatim>\<open>"model"\<close>. A missing key has no
  attribute; the failures on a value that is not a parameter group are not told apart.
\<close>

definition getparams :: "fascicle_results \<Rightarrow> string \<Rightarrow> py_error + param_group" where
  "getparams fr k =
     (case map_of fr k of
        Some (Params p) \<Rightarrow> Inr p
      | other \<Rightarrow> Inl AttributeError)"

text \<open>
  \<^verbatim>\<open>self.D\<close>, \<^verbatim>\<open>self.y_grav_center\<close>, \<^verbatim>\<open>self.axons_y\<close>, ...: attribute access to a key of the
  dictionary, whose value is then used as a number or as an array of numbers. A missing key
  has no attribute; a value of another kind fails in the arithmetic or the subscript.
\<close>

definition getnumber :: "fascicle_results \<Rightarrow> string \<Rightarrow> py_error + real" where
  "getnumber fr k =
     (case map_of fr k of
        None \<Rightarrow> Inl AttributeError
      | Some (Number x) \<Rightarrow> Inr x
      | Some other \<Rightarrow> Inl TypeError)"

definition getnumbers :: "fascicle_results \<Rightarrow> string \<Rightarrow> py_error + real list" where
  "getnumbers fr k =
     (case map_of fr k of
        None \<Rightarrow> Inl AttributeError
      | Some (Numbers xs) \<Rightarrow> Inr xs
      | Some other \<Rightarrow> Inl TypeError)"

subsection \<open>Selecting the axon keys\<close>

text \<open>
  \<^verbatim>\<open>str.isdigit\<close>, on characters read as code points below 256: the ASCII digits and the
  superscripts two, three and one (U+00B2, U+00B3, U+00B9).
\<close>

definition isdigit :: "char \<Rightarrow> bool" where
  "isdigit c = (c \<in> set (''0123456789'' @ [CHR 0xB2, CHR 0xB3, CHR 0xB9]))"

definition number_in_str :: "string \<Rightarrow> bool" where
  "number_in_str s = list_ex isdigit s"

text \<open>Python's \<^verbatim>\<open>sub in s\<close> on strings: \<open>sub\<close> occurs in \<open>s\<close> as a contiguous block.\<close>

fun str_in :: "string \<Rightarrow> string \<Rightarrow> bool" where
  "str_in sub [] = (sub = [])"
| "str_in sub (c # cs) = (take (length sub) (c # cs) = sub \<or> str_in sub cs)"

definition recognized_axon_types :: "string list" where
  "recognized_axon_types = [''all'', ''myelinated'', ''unmyelinated'']"

definition is_axon_key :: "string \<Rightarrow> bool" where
  "is_axon_key i = (str_in ''axon'' i \<and> number_in_str i)"

text \<open>
  The comprehension \<^verbatim>\<open>[i for i in axon_keys if self[i].myelinated == b]\<close>: it reads the
  attribute of every key in turn and stops at the first entry without it.
\<close>

fun filter_myelinated :: "fascicle_results \<Rightarrow> bool \<Rightarrow> string list \<Rightarrow> py_error + string list" where
  "filter_myelinated fr b [] = Inr []"
| "filter_myelinated fr b (i # rest) =
     (case getaxon fr i of
        Inl e \<Rightarrow> Inl e
      | Inr a \<Rightarrow>
          (case filter_myelinated fr b rest of
             Inl e \<Rightarrow> Inl e
           | Inr r \<Rightarrow> Inr (if py_eq_bool (myelinated a) b then i # r else r)))"

definition get_axons_key :: "fascicle_results \<Rightarrow> string \<Rightarrow> py_error + string list" where
  "get_axons_key fr ax_type =
     (if ax_type \<notin> set recognized_axon_types
      then rise_error
             ''Axon type specified not recognized. Recognized types are: ['all', 'myelinated', 'unmyelinated']''
      else
        let all_keys = keys fr;
            axon_keys = filter is_axon_key all_keys
        in if ax_type \<noteq> ''all''
           then (if ax_type = ''unmyelinated''
                 then filter_myelinated fr False axon_keys
                 else filter_myelinated fr True axon_keys)
           else Inr axon_keys)"

definition get_n_ax :: "fascicle_results \<Rightarrow> string \<Rightarrow> py_error + nat" where
  "get_n_ax fr ax_type =
     (case get_axons_key fr ax_type of Inl e \<Rightarrow> Inl e | Inr ks \<Rightarrow> Inr (length ks))"

text \<open>The entry under a key is an axon result, and it has the property \<open>P\<close>.\<close>

definition axon_has :: "fascicle_results \<Rightarrow> (axon_results \<Rightarrow> bool) \<Rightarrow> string \<Rightarrow> bool" where
  "axon_has fr P k = (case getaxon fr k of Inl e \<Rightarrow> False | Inr a \<Rightarrow> P a)"

text \<open>
  The data-model invariant of a fascicle: every key that \<open>is_axon_key\<close> selects holds an
  axon result (an entry with the attributes of \<open>axon_results\<close>).
\<close>

definition axon_entries_ok :: "fascicle_results \<Rightarrow> bool" where
  "axon_entries_ok fr = list_all (axon_has fr (\<lambda>a. True)) (filter is_axon_key (keys fr))"

text \<open>Every axon entry carries a boolean \<^verbatim>\<open>myelinated\<close> tag.\<close>

definition is_PyBool :: "pyval \<Rightarrow> bool" where
  "is_PyBool v = (case v of PyBool b \<Rightarrow> True | PyInt i \<Rightarrow> False | PyNone \<Rightarrow> False)"

definition myelinated_tags_boolean :: "fascicle_results \<Rightarrow> bool" where
  "myelinated_tags_boolean fr =
     list_all (axon_has fr (\<lambda>a. is_PyBool (myelinated a))) (filter is_axon_key (keys fr))"

subsection \<open>Recruitment counts\<close>

text \<open>
  A recruitment method returns the Python int \<^verbatim>\<open>n_recr\<close>, or the float that
  \<^verbatim>\<open>n_recr /= n_tot\<close> leaves when \<^verbatim>\<open>normalize\<close> is set (the flag is \<open>normalise\<close> here).
  Dividing by the int zero raises.
\<close>

datatype recruitment = Count nat | Ratio real

definition normalized :: "bool \<Rightarrow> nat \<Rightarrow> nat \<Rightarrow> py_error + recruitment" where
  "normalized normalise n_recr n_tot =
     (if normalise
      then (if n_tot = 0 then Inl ZeroDivisionError else Inr (Ratio (real n_recr / real n_tot)))
      else Inr (Count n_recr))"

text \<open>The loop of \<^verbatim>\<open>get_recruited_axons\<close>, with the counter \<^verbatim>\<open>n_recr\<close> as accumulator.\<close>

fun count_recruited :: "fascicle_results \<Rightarrow> string list \<Rightarrow> nat \<Rightarrow> py_error + nat" where
  "count_recruited fr [] n_recr = Inr n_recr"
| "count_recruited fr (axon # rest) n_recr =
     (case getaxon fr axon of
        Inl e \<Rightarrow> Inl e
      | Inr a \<Rightarrow>
          if is_recruited a then count_recruited fr rest (n_recr + 1)
          else count_recruited fr rest n_recr)"

definition get_recruited_axons :: "fascicle_results \<Rightarrow> string \<Rightarrow> bool \<Rightarrow> py_error + recruitment" where
  "get_recruited_axons fr ax_type normalise =
     (case get_axons_key fr ax_type of
        Inl e \<Rightarrow> Inl e
      | Inr axons_keys \<Rightarrow>
          (case count_recruited fr axons_keys 0 of
             Inl e \<Rightarrow> Inl e
           | Inr n_recr \<Rightarrow>
               if normalise
               then (case get_n_ax fr ax_type of
                       Inl e \<Rightarrow> Inl e
                     | Inr n \<Rightarrow> normalized True n_recr n)
               else Inr (Count n_recr)))"

text \<open>
  The loops of \<^verbatim>\<open>get_recruited_axons_greater_than\<close> and \<^verbatim>\<open>get_recruited_axons_lesser_than\<close>,
  with the counters \<^verbatim>\<open>(n_recr, n_tot)\<close> as accumulator.
\<close>

fun count_greater_than ::
  "fascicle_results \<Rightarrow> real \<Rightarrow> string list \<Rightarrow> nat \<times> nat \<Rightarrow> py_error + nat \<times> nat" where
  "count_greater_than fr diam [] (n_recr, n_tot) = Inr (n_recr, n_tot)"
| "count_greater_than fr diam (axon # rest) (n_recr, n_tot) =
     (case getaxon fr axon of
        Inl e \<Rightarrow> Inl e
      | Inr a \<Rightarrow>
          if diameter a > diam
          then (if is_recruited a
                then count_greater_than fr diam rest (n_recr + 1, n_tot + 1)
                else count_greater_than fr diam rest (n_recr, n_tot + 1))
          else count_greater_than fr diam rest (n_recr, n_tot))"

definition get_recruited_axons_greater_than ::
  "fascicle_results \<Rightarrow> real \<Rightarrow> string \<Rightarrow> bool \<Rightarrow> py_error + recruitment" where
  "get_recruited_axons_greater_than fr diam ax_type normalise =
     (case get_axons_key fr ax_type of
        Inl e \<Rightarrow> Inl e
      | Inr axons_keys \<Rightarrow>
          (case count_greater_than fr diam axons_keys (0, 0) of
             Inl e \<Rightarrow> Inl e
           | Inr (n_recr, n_tot) \<Rightarrow> normalized normalise n_recr n_tot))"

fun count_lesser_than ::
  "fascicle_results \<Rightarrow> real \<Rightarrow> string list \<Rightarrow> nat \<times> nat \<Rightarrow> py_error + nat \<times> nat" where
  "count_lesser_than fr diam [] (n_recr, n_tot) = Inr (n_recr, n_tot)"
| "count_lesser_than fr diam (axon # rest) (n_recr, n_tot) =
     (case getaxon fr axon of
        Inl e \<Rightarrow> Inl e
      | Inr a \<Rightarrow>
          if diameter a < diam
          then (if is_recruited a
                then count_lesser_than fr diam rest (n_recr + 1, n_tot + 1)
                else count_lesser_than fr diam rest (n_recr, n_tot + 1))
          else count_lesser_than fr diam rest (n_recr, n_tot))"

definition get_recruited_axons_lesser_than ::
  "fascicle_results \<Rightarrow> real \<Rightarrow> string \<Rightarrow> bool \<Rightarrow> py_error + recruitment" where
  "get_recruited_axons_lesser_than fr diam ax_type normalise =
     (case get_axons_key fr ax_type of
        Inl e \<Rightarrow> Inl e
      | Inr axons_keys \<Rightarrow>
          (case count_lesser_than fr diam axons_keys (0, 0) of
             Inl e \<Rightarrow> Inl e
           | Inr (n_recr, n_tot) \<Rightarrow> normalized normalise n_recr n_tot))"

subsection \<open>Membrane conductivity of the fascicle\<close>

text \<open>
  The method \<^verbatim>\<open>get_membrane_conductivity(x, t, unit, mem_th)\<close> of an axon result is not among
  the source files; it is the parameter \<open>axon_g\<close>, whose answer \<open>None\<close> is the \<^verbatim>\<open>None\<close> of an
  unavailable sample. The loop appends each sample to \<^verbatim>\<open>g\<close> and returns \<^verbatim>\<open>None\<close> at the
  first unavailable one.
\<close>

type_synonym axon_conductivity = "axon_results \<Rightarrow> real \<Rightarrow> real \<Rightarrow> string \<Rightarrow> real \<Rightarrow> real option"

fun collect_conductivity ::
  "axon_conductivity \<Rightarrow> fascicle_results \<Rightarrow> real \<Rightarrow> real \<Rightarrow> string \<Rightarrow> real \<Rightarrow>
     string list \<Rightarrow> real list \<Rightarrow> py_error + real list option" where
  "collect_conductivity axon_g fr x t unit mem_th [] g = Inr (Some g)"
| "collect_conductivity axon_g fr x t unit mem_th (key # rest) g =
     (case getaxon fr key of
        Inl e \<Rightarrow> Inl e
      | Inr a \<Rightarrow>
          (case axon_g a x t unit mem_th of
             Some g1 \<Rightarrow> collect_conductivity axon_g fr x t unit mem_th rest (g @ [g1])
           | None \<Rightarrow> Inr None))"

definition get_membrane_conductivity ::
  "axon_conductivity \<Rightarrow> fascicle_results \<Rightarrow> real \<Rightarrow> real \<Rightarrow> string \<Rightarrow> real \<Rightarrow>
     py_error + real list option" where
  "get_membrane_conductivity axon_g fr x t unit mem_th =
     (case get_axons_key fr ''all'' of
        Inl e \<Rightarrow> Inl e
      | Inr a_keys \<Rightarrow> collect_conductivity axon_g fr x t unit mem_th a_keys [])"

text \<open>The sample of the axon stored under a key, \<open>None\<close> when it is unavailable.\<close>

definition sample_at ::
  "axon_conductivity \<Rightarrow> fascicle_results \<Rightarrow> real \<Rightarrow> real \<Rightarrow> string \<Rightarrow> real \<Rightarrow> string \<Rightarrow> real option" where
  "sample_at axon_g fr x t unit mem_th k =
     (case getaxon fr k of Inl e \<Rightarrow> None | Inr a \<Rightarrow> axon_g a x t unit mem_th)"

subsection \<open>Membrane capacitance of the fascicle\<close>

text \<open>
  \<^verbatim>\<open>membrane_capacitance_from_model\<close> (of \<^verbatim>\<open>utils.misc\<close>) and \<^verbatim>\<open>convert\<close>, \<^verbatim>\<open>from_nrv_unit\<close>
  (of \<^verbatim>\<open>utils.units\<close>) are not among the source files: they are parameters of the model.
\<close>

definition get_membrane_capacitance ::
  "(string \<Rightarrow> real) \<Rightarrow> (real \<Rightarrow> string \<Rightarrow> string \<Rightarrow> real) \<Rightarrow> (real \<Rightarrow> string \<Rightarrow> real) \<Rightarrow>
     fascicle_results \<Rightarrow> string \<Rightarrow> real \<Rightarrow> py_error + real \<times> real" where
  "get_membrane_capacitance membrane_capacitance_from_model convert from_nrv_unit fr unit mem_th =
     (case getparams fr ''unmyelinated_param'' of
        Inl e \<Rightarrow> Inl e
      | Inr up \<Rightarrow>
          (case getparams fr ''myelinated_param'' of
             Inl e \<Rightarrow> Inl e
           | Inr mp \<Rightarrow>
               let u_c_mem = membrane_capacitance_from_model (model up);
                   m_c_mem = membrane_capacitance_from_model (model mp)
               in if str_in ''2'' unit
                  then Inr (convert u_c_mem ''S/cm**2'' unit, convert m_c_mem ''S/cm**2'' unit)
                  else
                    let u_c_mem = u_c_mem * from_nrv_unit mem_th ''cm'';
                        m_c_mem = m_c_mem * from_nrv_unit mem_th ''cm''
                    in Inr (convert u_c_mem ''S/cm'' unit, convert m_c_mem ''S/cm'' unit)))"

subsection \<open>The block summary plot\<close>

text \<open>
  The method \<^verbatim>\<open>block_summary(AP_start, freq, t_refractory)\<close> of an axon result is not
  among the source files; it is the parameter \<open>block_summary\<close>, which returns the entry with
  \<open>is_blocked\<close> and \<open>n_onset\<close> written. \<open>setitem\<close> stores the changed entry under its key.
\<close>

type_synonym block_summary_method = "axon_results \<Rightarrow> real \<Rightarrow> real option \<Rightarrow> real \<Rightarrow> axon_results"

definition setitem :: "fascicle_results \<Rightarrow> string \<Rightarrow> entry \<Rightarrow> fascicle_results" where
  "setitem fr k v = map (\<lambda>(k', v'). if k' = k then (k', v) else (k', v')) fr"

record block_lists =
  axon_diam :: "real list"
  axon_type :: "pyval list"
  axon_ys :: "real list"
  axon_zs :: "real list"
  blocked_list :: "bool option list"
  n_onset_list :: "nat list"

fun block_summary_loop ::
  "block_summary_method \<Rightarrow> real \<Rightarrow> real option \<Rightarrow> real \<Rightarrow> string list \<Rightarrow>
     fascicle_results \<Rightarrow> block_lists \<Rightarrow> py_error + fascicle_results \<times> block_lists" where
  "block_summary_loop block_summary AP_start freq t_refractory [] fr acc = Inr (fr, acc)"
| "block_summary_loop block_summary AP_start freq t_refractory (axon # rest) fr acc =
     (case getaxon fr axon of
        Inl e \<Rightarrow> Inl e
      | Inr a \<Rightarrow>
          let a' = block_summary a AP_start freq t_refractory;
              fr' = setitem fr axon (Axon a')
          in block_summary_loop block_summary AP_start freq t_refractory rest fr'
               \<lparr>axon_diam = axon_diam acc @ [diameter a'],
                axon_type = axon_type acc @ [myelinated a'],
                axon_ys = axon_ys acc @ [axon_y a'],
                axon_zs = axon_zs acc @ [axon_z a'],
                blocked_list = blocked_list acc @ [is_blocked a'],
                n_onset_list = n_onset_list acc @ [n_onset a']\<rparr>)"

definition get_block_summary_axons ::
  "block_summary_method \<Rightarrow> fascicle_results \<Rightarrow> real \<Rightarrow> real option \<Rightarrow> real \<Rightarrow>
     py_error + fascicle_results \<times> block_lists" where
  "get_block_summary_axons block_summary fr AP_start freq t_refractory =
     (case get_axons_key fr ''all'' of
        Inl e \<Rightarrow> Inl e
      | Inr axons_keys \<Rightarrow>
          block_summary_loop block_summary AP_start freq t_refractory axons_keys fr
            \<lparr>axon_diam = [], axon_type = [], axon_ys = [], axon_zs = [],
             blocked_list = [], n_onset_list = []\<rparr>)"

text \<open>
  \<^verbatim>\<open>np.max\<close> of a list of ints raises \<^verbatim>\<open>ValueError\<close> on the empty list. A Python int divided
  by the numpy integer zero does not raise: numpy returns \<^verbatim>\<open>inf\<close> and reports the division
  by zero as a \<^verbatim>\<open>RuntimeWarning\<close>. The product of a count and \<^verbatim>\<open>inf\<close> is \<^verbatim>\<open>nan\<close> for the count
  zero and \<^verbatim>\<open>inf\<close> otherwise.
\<close>

datatype npfloat = Finite real | PosInf | NaN

definition np_max :: "nat list \<Rightarrow> py_error + nat" where
  "np_max xs = (case xs of [] \<Rightarrow> Inl ValueError | x # rest \<Rightarrow> Inr (fold max rest x))"

definition divide_by_zero_warning :: string where
  "divide_by_zero_warning = ''RuntimeWarning: divide by zero encountered''"

definition one_over :: "nat \<Rightarrow> log \<times> npfloat" where
  "one_over m = (if m = 0 then ([divide_by_zero_warning], PosInf) else ([], Finite (1 / real m)))"

fun times_count :: "nat \<Rightarrow> npfloat \<Rightarrow> npfloat" where
  "times_count n (Finite r) = Finite (real n * r)"
| "times_count n PosInf = (if n = 0 then NaN else PosInf)"
| "times_count n NaN = NaN"

text \<open>
  The calls on the \<^verbatim>\<open>axes\<close> object, in the order they are made: the contour of the fascicle
  (an unfilled circle with its centre, radius and colour), a cross for an undetermined
  block state, one filled circle per axon with its centre, radius, colour and opacity, the
  plot of the stimulation context with its colour and the nerve diameter, the label of an
  axon at its position, and the two axis limits.
\<close>

datatype drawing =
  Contour real real real string
  | Cross real real
  | Circle real real real string npfloat
  | Stim_plot string real
  | Label real real nat
  | Xlim real real
  | Ylim real real

definition axon_drawing ::
  "npfloat \<Rightarrow> real \<Rightarrow> real \<Rightarrow> real \<Rightarrow> bool option \<Rightarrow> nat \<Rightarrow> drawing list" where
  "axon_drawing alpha_g d yk zk blocked onset =
     (if blocked \<noteq> Some True
      then
        (let (c, alpha) = (if onset = 0 then (''grey'', Finite (1/2))
                           else (''orangered'', times_count onset alpha_g))
         in (if blocked = None then [Cross yk zk] else []) @ [Circle yk zk (d / 2) c alpha])
      else
        (let (c, alpha) = (if onset = 0 then (''seagreen'', Finite 1)
                           else (''steelblue'', times_count onset alpha_g))
         in [Circle yk zk (d / 2) c alpha]))"

text \<open>
  The loop \<^verbatim>\<open>for k, _ in enumerate(axon_diam)\<close>. It runs over the positions of
  \<^verbatim>\<open>axon_diam\<close>; the other lists have the same length, since \<^verbatim>\<open>get_block_summary_axons\<close>
  appends to all of them in each round.
\<close>

fun plot_axons ::
  "npfloat \<Rightarrow> real list \<Rightarrow> real list \<Rightarrow> real list \<Rightarrow> bool option list \<Rightarrow> nat list \<Rightarrow> drawing list" where
  "plot_axons alpha_g (d # ds) (yk # ys) (zk # zs) (b # bs) (n # ns) =
     axon_drawing alpha_g d yk zk b n @ plot_axons alpha_g ds ys zs bs ns"
| "plot_axons alpha_g ds ys zs bs ns = []"

text \<open>
  \<^verbatim>\<open>if self.extra_stim is not None: self.extra_stim.plot(axes=axes, color="gold",
  nerve_d=self.D)\<close>. A value that is neither \<^verbatim>\<open>None\<close> nor a stimulation context has no
  \<^verbatim>\<open>plot\<close> method.
\<close>

definition plot_extra_stim :: "fascicle_results \<Rightarrow> py_error + drawing list" where
  "plot_extra_stim fr =
     (case map_of fr ''extra_stim'' of
        None \<Rightarrow> Inl AttributeError
      | Some NoneValue \<Rightarrow> Inr []
      | Some Stimulation \<Rightarrow>
          (case getnumber fr ''D'' of
             Inl e \<Rightarrow> Inl e
           | Inr nerve_d \<Rightarrow> Inr [Stim_plot ''gold'' nerve_d])
      | Some other \<Rightarrow> Inl AttributeError)"

text \<open>
  \<^verbatim>\<open>for k in range(self.n_ax): axes.text(self.axons_y[k], self.axons_z[k], str(k))\<close>, where
  \<^verbatim>\<open>self.n_ax\<close> is \<^verbatim>\<open>len(self.axons_diameter)\<close>. The label \<^verbatim>\<open>str(k)\<close> is kept as the number
  \<open>k\<close>.
\<close>

fun label_loop :: "fascicle_results \<Rightarrow> nat list \<Rightarrow> py_error + drawing list" where
  "label_loop fr [] = Inr []"
| "label_loop fr (k # rest) =
     (case getnumbers fr ''axons_y'' of
        Inl e \<Rightarrow> Inl e
      | Inr axons_y \<Rightarrow>
          (case list_getitem axons_y (int k) of
             Inl e \<Rightarrow> Inl e
           | Inr yk \<Rightarrow>
               (case getnumbers fr ''axons_z'' of
                  Inl e \<Rightarrow> Inl e
                | Inr axons_z \<Rightarrow>
                    (case list_getitem axons_z (int k) of
                       Inl e \<Rightarrow> Inl e
                     | Inr zk \<Rightarrow>
                         (case label_loop fr rest of
                            Inl e \<Rightarrow> Inl e
                          | Inr r \<Rightarrow> Inr (Label yk zk k # r))))))"

definition plot_labels :: "fascicle_results \<Rightarrow> bool \<Rightarrow> py_error + drawing list" where
  "plot_labels fr num =
     (if num
      then (case getnumbers fr ''axons_diameter'' of
              Inl e \<Rightarrow> Inl e
            | Inr axons_diameter \<Rightarrow> label_loop fr [0..<length axons_diameter])
      else Inr [])"

text \<open>The two calls \<^verbatim>\<open>axes.set_xlim\<close> and \<^verbatim>\<open>axes.set_ylim\<close>, with the bounds
  \<^verbatim>\<open>-1.1 * self.D / 2 + centre\<close> and \<^verbatim>\<open>1.1 * self.D / 2 + centre\<close>.\<close>

definition axis_limits :: "fascicle_results \<Rightarrow> py_error + drawing list" where
  "axis_limits fr =
     (case getnumber fr ''D'' of
        Inl e \<Rightarrow> Inl e
      | Inr D \<Rightarrow>
          (case getnumber fr ''y_grav_center'' of
             Inl e \<Rightarrow> Inl e
           | Inr y_grav_center \<Rightarrow>
               (case getnumber fr ''z_grav_center'' of
                  Inl e \<Rightarrow> Inl e
                | Inr z_grav_center \<Rightarrow>
                    Inr [Xlim (- (11 / 10) * D / 2 + y_grav_center) (11 / 10 * D / 2 + y_grav_center),
                         Ylim (- (11 / 10) * D / 2 + z_grav_center) (11 / 10 * D / 2 + z_grav_center)])))"

text \<open>
  \<^verbatim>\<open>plot_block_summary\<close>. \<open>master\<close> is the answer of \<^verbatim>\<open>MCH.do_master_only_work()\<close>; on any
  other process nothing is read or drawn. The contour reads \<^verbatim>\<open>self.y_grav_center\<close>,
  \<^verbatim>\<open>self.z_grav_center\<close> and \<^verbatim>\<open>self.D\<close> before the block summaries are computed; the
  stimulation context, the labels and the axis limits are read after the loop over the axons,
  from the dictionary that holds the block summaries. The result is that dictionary, the
  warnings and the drawings; an error ends the call and the drawings made before it are not
  reported.
\<close>

definition plot_block_summary ::
  "block_summary_method \<Rightarrow> bool \<Rightarrow> fascicle_results \<Rightarrow> real \<Rightarrow> real option \<Rightarrow> real \<Rightarrow>
     string \<Rightarrow> bool \<Rightarrow> py_error + fascicle_results \<times> log \<times> drawing list" where
  "plot_block_summary block_summary master fr AP_start freq t_refractory contour_color num =
     (if master
      then
        (case getnumber fr ''y_grav_center'' of
           Inl e \<Rightarrow> Inl e
         | Inr y_grav_center \<Rightarrow>
        (case getnumber fr ''z_grav_center'' of
           Inl e \<Rightarrow> Inl e
         | Inr z_grav_center \<Rightarrow>
        (case getnumber fr ''D'' of
           Inl e \<Rightarrow> Inl e
         | Inr D \<Rightarrow>
        (case get_block_summary_axons block_summary fr AP_start freq t_refractory of
           Inl e \<Rightarrow> Inl e
         | Inr (fr', ls) \<Rightarrow>
        (case np_max (n_onset_list ls) of
           Inl e \<Rightarrow> Inl e
         | Inr m \<Rightarrow>
        (case one_over m of
           (w, alpha_g) \<Rightarrow>
        (case plot_extra_stim fr' of
           Inl e \<Rightarrow> Inl e
         | Inr stim \<Rightarrow>
        (case plot_labels fr' num of
           Inl e \<Rightarrow> Inl e
         | Inr labels \<Rightarrow>
        (case axis_limits fr' of
           Inl e \<Rightarrow> Inl e
         | Inr limits \<Rightarrow>
             Inr (fr', w,
                  [Contour y_grav_center z_grav_center (D / 2) contour_color] @
                  plot_axons alpha_g (axon_diam ls) (axon_ys ls) (axon_zs ls)
                    (blocked_list ls) (n_onset_list ls) @
                  stim @ labels @ limits))))))))))
      else Inr (fr, [], []))"

section \<open>Myelinated axon results\<close>

text \<open>
  A \<^verbatim>\<open>myelinated_results\<close> is an axon result with the keys that the methods below read
  (\<^verbatim>\<open>rec\<close>, \<^verbatim>\<open>x_rec\<close>, \<^verbatim>\<open>Nseg_per_sec\<close>, \<^verbatim>\<open>axon_path_type\<close>) and the keys that
  \<^verbatim>\<open>get_myelin_properties\<close> writes, absent (\<open>None\<close>) until then.
\<close>

record myelinated_results = axon_results +
  rec :: string
  x_rec :: "real list"
  Nseg_per_sec :: int
  axon_path_type :: "string list"
  g_mye :: "real list option"
  c_mye :: "real list option"
  f_mye :: "real list option"

text \<open>
  \<^verbatim>\<open>get_index_myelinated_sequence\<close>. Python's \<^verbatim>\<open>//\<close> and \<^verbatim>\<open>%\<close> on ints are \<open>div\<close> and \<open>mod\<close>
  on \<open>int\<close> (both round towards minus infinity); \<^verbatim>\<open>//\<close> by zero raises.
\<close>

definition get_index_myelinated_sequence :: "myelinated_results \<Rightarrow> int \<Rightarrow> log \<times> (py_error + string)" where
  "get_index_myelinated_sequence m n =
     (if rec m = ''nodes'' then ([], Inr ''node'')
      else
        let w = (if n > int (length (x_rec m)) then rise_warning ''index not in axon'' else []);
            Nseg = Nseg_per_sec m + 1;
            N_sec_type = 11;
            seq_types = axon_path_type m
        in if n = 0 then (w, list_getitem seq_types 0)
           else if Nseg = 0 then (w, Inl ZeroDivisionError)
           else (w, list_getitem seq_types (((n - 1) div Nseg) mod N_sec_type)))"

text \<open>
  The loop \<^verbatim>\<open>for i in range(n_center)\<close> of \<^verbatim>\<open>find_central_node_index\<close>, over the offsets
  still to try. \<open>Some j\<close> is the \<^verbatim>\<open>return\<close> inside the loop, \<open>None\<close> its normal end.
\<close>

fun node_search :: "myelinated_results \<Rightarrow> int \<Rightarrow> nat list \<Rightarrow> log \<times> (py_error + int option)" where
  "node_search m n_center [] = ([], Inr None)"
| "node_search m n_center (i # rest) =
     (case get_index_myelinated_sequence m (n_center + int i) of
        (w1, Inl e) \<Rightarrow> (w1, Inl e)
      | (w1, Inr s1) \<Rightarrow>
          if s1 = ''node'' then (w1, Inr (Some (n_center + int i)))
          else
            (case get_index_myelinated_sequence m (n_center - int i) of
               (w2, Inl e) \<Rightarrow> (w1 @ w2, Inl e)
             | (w2, Inr s2) \<Rightarrow>
                 if s2 = ''node'' then (w1 @ w2, Inr (Some (n_center - int i)))
                 else
                   (case node_search m n_center rest of
                      (w3, r) \<Rightarrow> (w1 @ w2 @ w3, r))))"

definition find_central_node_index :: "myelinated_results \<Rightarrow> log \<times> (py_error + int)" where
  "find_central_node_index m =
     (let n_center = length (x_rec m) div 2
      in if rec m = ''nodes'' then ([], Inr (int n_center))
         else
           (case node_search m (int n_center) [0..<n_center] of
              (w, Inl e) \<Rightarrow> (w, Inl e)
            | (w, Inr (Some j)) \<Rightarrow> (w, Inr j)
            | (w, Inr None) \<Rightarrow> (w @ rise_warning ''No node found in the axon'', Inr (int n_center))))"

text \<open>The label of a point when nothing raises, and the indices in the order the search
  tries them: \<open>n_center + 0, n_center - 0, n_center + 1, n_center - 1, ...\<close>\<close>

definition sequence_label :: "myelinated_results \<Rightarrow> int \<Rightarrow> string" where
  "sequence_label m n =
     (if n = 0 then axon_path_type m ! 0
      else axon_path_type m ! nat (((n - 1) div (Nseg_per_sec m + 1)) mod 11))"

definition search_order :: "nat \<Rightarrow> int list" where
  "search_order n_center = concat (map (\<lambda>i. [int n_center + int i, int n_center - int i]) [0..<n_center])"

subsection \<open>Myelin properties\<close>









section \<open>Example inputs and auxiliary notions\<close>

definition example_axon :: "pyval \<Rightarrow> real \<Rightarrow> bool \<Rightarrow> axon_results" where
  "example_axon tag d r =
     \<lparr>myelinated = tag, diameter = d, axon_y = 0, axon_z = 0, recruited = r,
      is_blocked = None, n_onset = 0\<rparr>"

text \<open>Four axons of diameters 3, 5, 7, 9 with recruitment flags T, F, T, T, next to a
  metadata field whose key contains "axon" but no digit.\<close>

definition fascicle_3579 :: fascicle_results where
  "fascicle_3579 =
     [(''axons_diameter'', Field),
      (''axon0'', Axon (example_axon (PyBool True) 3 True)),
      (''axon1'', Axon (example_axon (PyBool False) 5 False)),
      (''axon2'', Axon (example_axon (PyBool True) 7 True)),
      (''axon3'', Axon (example_axon (PyBool True) 9 True))]"

text \<open>A conductivity sample that is unavailable for the axon of diameter 5.\<close>

definition unavailable_at_5 :: axon_conductivity where
  "unavailable_at_5 a x t unit mem_th = (if diameter a = 5 then None else Some (diameter a * 2))"

text \<open>A unit table and the conversions built on it, to run the capacitance on.\<close>

definition example_unit :: "string \<Rightarrow> real" where
  "example_unit u =
     (if u = ''S/cm**2'' then 1 / 10 ^ 8
      else if u = ''S/m**2'' then 1 / 10 ^ 12
      else if u = ''S/cm'' then 1 / 10 ^ 4
      else if u = ''S/m'' then 1 / 10 ^ 6
      else if u = ''cm'' then 10 ^ 4
      else 1)"

definition example_convert :: "real \<Rightarrow> string \<Rightarrow> string \<Rightarrow> real" where
  "example_convert v unitin unitout = v * example_unit unitin / example_unit unitout"

definition example_from_nrv_unit :: "real \<Rightarrow> string \<Rightarrow> real" where
  "example_from_nrv_unit v u = v / example_unit u"

definition example_capacitance :: "string \<Rightarrow> real" where
  "example_capacitance mdl = (if mdl = ''MRG'' then 2 else 1)"

definition fascicle_with_params :: fascicle_results where
  "fascicle_with_params =
     [(''unmyelinated_param'', Params \<lparr>model = ''Rattay_Aberham''\<rparr>),
      (''myelinated_param'', Params \<lparr>model = ''MRG''\<rparr>)] @ fascicle_3579"

text \<open>The opacities of the filled circles of the axons, in the order they are drawn.\<close>

fun circle_alphas :: "drawing list \<Rightarrow> npfloat list" where
  "circle_alphas [] = []"
| "circle_alphas (Circle yk zk r c alpha # ds) = alpha # circle_alphas ds"
| "circle_alphas (d # ds) = circle_alphas ds"

text \<open>The six lists of \<^verbatim>\<open>get_block_summary_axons\<close> have one length.\<close>

definition same_lengths :: "block_lists \<Rightarrow> nat \<Rightarrow> bool" where
  "same_lengths ls n =
     (length (axon_diam ls) = n \<and> length (axon_type ls) = n \<and> length (axon_ys ls) = n \<and>
      length (axon_zs ls) = n \<and> length (blocked_list ls) = n \<and> length (n_onset_list ls) = n)"

text \<open>Two block summaries: one with onsets on two axons and an undetermined block state,
  one that finds every axon blocked without onset.\<close>

definition example_block_summary :: block_summary_method where
  "example_block_summary a AP_start freq t_refractory =
     a\<lparr>is_blocked := (if diameter a = 5 then None else Some (diameter a > 5)),
       n_onset := (if diameter a = 3 then 2 else if diameter a = 9 then 1 else 0)\<rparr>"

definition silent_block_summary :: block_summary_method where
  "silent_block_summary a AP_start freq t_refractory = a\<lparr>is_blocked := Some True, n_onset := 0\<rparr>"

text \<open>The four axons in a fascicle that carries what the plot reads: the centre and the
  diameter of the fascicle, a stimulation context and the arrays of the axon positions.\<close>

definition fascicle_plot :: fascicle_results where
  "fascicle_plot =
     [(''D'', Number 100),
      (''y_grav_center'', Number 10),
      (''z_grav_center'', Number 20),
      (''extra_stim'', Stimulation),
      (''axons_diameter'', Numbers [3, 5, 7, 9]),
      (''axons_y'', Numbers [1, 2, 3, 4]),
      (''axons_z'', Numbers [5, 6, 7, 8]),
      (''axon0'', Axon (example_axon (PyBool True) 3 True)),
      (''axon1'', Axon (example_axon (PyBool False) 5 False)),
      (''axon2'', Axon (example_axon (PyBool True) 7 True)),
      (''axon3'', Axon (example_axon (PyBool True) 9 True))]"

text \<open>The repeating pattern of eleven section types, a myelinated result with a given
  recording mode, number of recorded points and section sequence, and a sequence that
  starts after the node.\<close>

definition mrg_pattern :: "string list" where
  "mrg_pattern = [''node'', ''MYSA'', ''FLUT'', ''STIN'', ''STIN'', ''STIN'', ''STIN'', ''STIN'',
                  ''STIN'', ''FLUT'', ''MYSA'']"

definition example_myelinated :: "string \<Rightarrow> nat \<Rightarrow> string list \<Rightarrow> myelinated_results" where
  "example_myelinated mode n_points path =
     \<lparr>myelinated = PyBool True, diameter = 10, axon_y = 0, axon_z = 0, recruited = True,
      is_blocked = None, n_onset = 0,
      rec = mode, x_rec = map real [0..<n_points], Nseg_per_sec = 1, axon_path_type = path,
      g_mye = None, c_mye = None, f_mye = None\<rparr>"

definition shifted_pattern :: "string list" where
  "shifted_pattern = [''MYSA'', ''FLUT'', ''STIN'', ''STIN'', ''STIN'', ''STIN'', ''STIN'',
                      ''STIN'', ''FLUT'', ''MYSA'', ''node'']"





section \<open>Properties of the fascicle results\<close>

lemmas eval_keys = keys_def is_axon_key_def number_in_str_def isdigit_def getaxon_def getitem_def
  axon_has_def get_axons_key_def recognized_axon_types_def

text \<open>\<open>str_in\<close> is the substring test.\<close>

lemma str_in_iff: "str_in sub s \<longleftrightarrow> (\<exists>ps ss. s = ps @ sub @ ss)"
proof (induction s)
  case Nil
  show ?case by auto
next
  case (Cons c cs)
  have "(\<exists>ps ss. c # cs = ps @ sub @ ss) \<longleftrightarrow>
        (\<exists>ss. c # cs = sub @ ss) \<or> (\<exists>ps ss. cs = ps @ sub @ ss)"
  proof
    assume "\<exists>ps ss. c # cs = ps @ sub @ ss"
    then obtain ps ss where e: "c # cs = ps @ sub @ ss" by blast
    show "(\<exists>ss. c # cs = sub @ ss) \<or> (\<exists>ps ss. cs = ps @ sub @ ss)"
    proof (cases ps)
      case Nil
      with e show ?thesis by auto
    next
      case (Cons p ps')
      with e show ?thesis by auto
    qed
  next
    assume "(\<exists>ss. c # cs = sub @ ss) \<or> (\<exists>ps ss. cs = ps @ sub @ ss)"
    then show "\<exists>ps ss. c # cs = ps @ sub @ ss"
    proof
      assume "\<exists>ss. c # cs = sub @ ss"
      then show ?thesis by (metis append_Nil)
    next
      assume "\<exists>ps ss. cs = ps @ sub @ ss"
      then obtain ps ss where "cs = ps @ sub @ ss" by blast
      then have "c # cs = (c # ps) @ sub @ ss" by simp
      then show ?thesis by blast
    qed
  qed
  moreover have "(take (length sub) (c # cs) = sub) \<longleftrightarrow> (\<exists>ss. c # cs = sub @ ss)"
    by (metis append_eq_conv_conj append_take_drop_id)
  ultimately show ?case using Cons.IH by simp
qed

lemma axon_has_getaxon: "axon_has fr P k \<Longrightarrow> \<exists>a. getaxon fr k = Inr a \<and> P a"
  by (auto simp: axon_has_def split: sum.splits)

lemma getaxon_error: "getaxon fr k = Inl e \<Longrightarrow> e = KeyError \<or> e = AttributeError"
  by (auto simp: getaxon_def getitem_def split: option.splits entry.splits)

lemma filter_myelinated_error:
  "filter_myelinated fr b ks = Inl e \<Longrightarrow> e = KeyError \<or> e = AttributeError"
proof (induction ks arbitrary: e)
  case Nil
  then show ?case by simp
next
  case (Cons k ks)
  then show ?case
    by (auto split: sum.splits dest: getaxon_error)
qed

lemma filter_myelinated_ok:
  "list_all (axon_has fr (\<lambda>a. True)) ks
   \<Longrightarrow> filter_myelinated fr b ks = Inr (filter (axon_has fr (\<lambda>a. py_eq_bool (myelinated a) b)) ks)"
  by (induction ks) (auto simp: axon_has_def split: sum.splits)

lemma get_axons_key_ok:
  assumes "axon_entries_ok fr" and "get_axons_key fr ax_type = Inr ks"
  shows "list_all (axon_has fr (\<lambda>a. True)) ks"
proof -
  let ?al = "filter is_axon_key (keys fr)"
  have al: "list_all (axon_has fr (\<lambda>a. True)) ?al"
    using assms(1) by (simp add: axon_entries_ok_def)
  have "set ks \<subseteq> set ?al"
    using assms(2) filter_myelinated_ok [OF al]
    by (auto simp: get_axons_key_def rise_error_def Let_def split: if_splits)
  with al show ?thesis by (auto simp: list_all_iff)
qed

lemma fascicle_3579_keys:
  "get_axons_key fascicle_3579 ''all'' = Inr [''axon0'', ''axon1'', ''axon2'', ''axon3'']"
  by (simp add: fascicle_3579_def eval_keys)

lemma fascicle_3579_ok: "axon_entries_ok fascicle_3579"
  by (simp add: fascicle_3579_def axon_entries_ok_def eval_keys)

subsection \<open>The axon type is validated\<close>

text \<open>
  Claim C2. For every string \<open>ax_type\<close> outside \<open>{"all", "myelinated", "unmyelinated"}\<close>,
  \<open>get_axons_key\<close> stops with the fatal error of \<open>rise_error\<close>, whatever the fascicle holds.
  For an \<open>ax_type\<close> in that set it never ends with that error, and on a fascicle whose axon
  keys hold axon results it returns a list of keys.
\<close>

theorem get_axons_key_fatal:
  "(ax_type \<notin> {''all'', ''myelinated'', ''unmyelinated''} \<longrightarrow>
      (\<exists>msg. get_axons_key fr ax_type = Inl (NRV_Error msg))) \<and>
   (ax_type \<in> {''all'', ''myelinated'', ''unmyelinated''} \<longrightarrow>
      (\<forall>msg. get_axons_key fr ax_type \<noteq> Inl (NRV_Error msg)) \<and>
      (axon_entries_ok fr \<longrightarrow> (\<exists>ks. get_axons_key fr ax_type = Inr ks)))"
proof (intro conjI impI allI)
  assume "ax_type \<notin> {''all'', ''myelinated'', ''unmyelinated''}"
  then show "\<exists>msg. get_axons_key fr ax_type = Inl (NRV_Error msg)"
    by (simp add: get_axons_key_def recognized_axon_types_def rise_error_def)
next
  fix msg
  assume "ax_type \<in> {''all'', ''myelinated'', ''unmyelinated''}"
  then show "get_axons_key fr ax_type \<noteq> Inl (NRV_Error msg)"
    by (auto simp: get_axons_key_def recognized_axon_types_def Let_def
             dest: filter_myelinated_error)
next
  assume "ax_type \<in> {''all'', ''myelinated'', ''unmyelinated''}" and "axon_entries_ok fr"
  then show "\<exists>ks. get_axons_key fr ax_type = Inr ks"
    by (auto simp: get_axons_key_def recognized_axon_types_def Let_def axon_entries_ok_def
                   filter_myelinated_ok)
qed

theorem get_axons_key_fatal_witness:
  "''sensory'' \<notin> {''all'', ''myelinated'', ''unmyelinated''} \<and>
   (\<exists>msg. get_axons_key fascicle_3579 ''sensory'' = Inl (NRV_Error msg)) \<and>
   ''unmyelinated'' \<in> {''all'', ''myelinated'', ''unmyelinated''} \<and>
   axon_entries_ok fascicle_3579 \<and>
   (\<exists>ks. get_axons_key fascicle_3579 ''unmyelinated'' = Inr ks)"
  using get_axons_key_fatal [of "''sensory''" fascicle_3579]
        get_axons_key_fatal [of "''unmyelinated''" fascicle_3579] fascicle_3579_ok
  by simp

subsection \<open>The axon keys are partitioned by the myelinated tag\<close>

text \<open>
  Claim C3. On a fascicle whose axon entries carry a boolean \<open>myelinated\<close> tag, the length
  of \<open>get_axons_key "all"\<close> is \<open>get_n_ax "all"\<close>, and the keys of \<open>get_axons_key "myelinated"\<close>
  and of \<open>get_axons_key "unmyelinated"\<close> partition those of \<open>get_axons_key "all"\<close>: their union
  is the whole, they share no key, and their lengths add up.
\<close>

theorem axon_keys_partition:
  assumes "myelinated_tags_boolean fr"
  shows "\<exists>al my un.
           get_axons_key fr ''all'' = Inr al \<and>
           get_n_ax fr ''all'' = Inr (length al) \<and>
           get_axons_key fr ''myelinated'' = Inr my \<and>
           get_axons_key fr ''unmyelinated'' = Inr un \<and>
           set my \<union> set un = set al \<and>
           set my \<inter> set un = {} \<and>
           length my + length un = length al"
proof -
  let ?al = "filter is_axon_key (keys fr)"
  let ?P = "\<lambda>b. axon_has fr (\<lambda>a. py_eq_bool (myelinated a) b)"
  have tags: "list_all (axon_has fr (\<lambda>a. is_PyBool (myelinated a))) ?al"
    using assms by (simp add: myelinated_tags_boolean_def)
  then have ok: "list_all (axon_has fr (\<lambda>a. True)) ?al"
    by (auto simp: list_all_iff axon_has_def split: sum.splits)
  have al: "get_axons_key fr ''all'' = Inr ?al"
    by (simp add: get_axons_key_def recognized_axon_types_def)
  have n: "get_n_ax fr ''all'' = Inr (length ?al)"
    by (simp add: get_n_ax_def al)
  have my: "get_axons_key fr ''myelinated'' = Inr (filter (?P True) ?al)"
    using filter_myelinated_ok [OF ok, of True]
    by (simp add: get_axons_key_def recognized_axon_types_def)
  have un: "get_axons_key fr ''unmyelinated'' = Inr (filter (?P False) ?al)"
    using filter_myelinated_ok [OF ok, of False]
    by (simp add: get_axons_key_def recognized_axon_types_def)
  have compl: "?P False k = (\<not> ?P True k)" if "k \<in> set ?al" for k
  proof -
    from tags that have "axon_has fr (\<lambda>a. is_PyBool (myelinated a)) k"
      by (simp add: list_all_iff)
    then show ?thesis
      by (auto simp: axon_has_def is_PyBool_def split: sum.splits pyval.splits)
  qed
  have un': "filter (?P False) ?al = filter (\<lambda>k. \<not> ?P True k) ?al"
    by (rule filter_cong) (simp_all add: compl)
  have "set (filter (?P True) ?al) \<union> set (filter (?P False) ?al) = set ?al"
    unfolding un' by auto
  moreover have "set (filter (?P True) ?al) \<inter> set (filter (?P False) ?al) = {}"
    unfolding un' by auto
  moreover have "length (filter (?P True) ?al) + length (filter (?P False) ?al) = length ?al"
    unfolding un' by (rule sum_length_filter_compl)
  ultimately show ?thesis using al n my un by blast
qed

theorem axon_keys_partition_witness:
  "myelinated_tags_boolean fascicle_3579 \<and>
   (\<exists>al my un.
      get_axons_key fascicle_3579 ''all'' = Inr al \<and>
      get_n_ax fascicle_3579 ''all'' = Inr (length al) \<and>
      get_axons_key fascicle_3579 ''myelinated'' = Inr my \<and>
      get_axons_key fascicle_3579 ''unmyelinated'' = Inr un \<and>
      set my \<union> set un = set al \<and>
      set my \<inter> set un = {} \<and>
      length my + length un = length al)"
proof -
  have tags: "myelinated_tags_boolean fascicle_3579"
    by (simp add: myelinated_tags_boolean_def fascicle_3579_def eval_keys example_axon_def
                  is_PyBool_def)
  from tags axon_keys_partition [OF tags] show ?thesis by blast
qed

text \<open>The tag has to be boolean: an axon tagged \<^verbatim>\<open>None\<close> is in neither part.\<close>

lemma untagged_axon_in_neither_part:
  "get_axons_key [(''axon0'', Axon (example_axon PyNone 3 True))] ''all'' = Inr [''axon0''] \<and>
   get_axons_key [(''axon0'', Axon (example_axon PyNone 3 True))] ''myelinated'' = Inr [] \<and>
   get_axons_key [(''axon0'', Axon (example_axon PyNone 3 True))] ''unmyelinated'' = Inr []"
  by (simp add: eval_keys example_axon_def)

subsection \<open>Recruitment by diameter\<close>

lemma count_greater_than_eq:
  "list_all (axon_has fr (\<lambda>a. True)) ks \<Longrightarrow>
   count_greater_than fr diam ks (r, t) =
     Inr (r + length (filter (axon_has fr (\<lambda>a. diameter a > diam \<and> is_recruited a)) ks),
          t + length (filter (axon_has fr (\<lambda>a. diameter a > diam)) ks))"
  by (induction ks arbitrary: r t) (auto simp: axon_has_def split: sum.splits)

lemma count_lesser_than_eq:
  "list_all (axon_has fr (\<lambda>a. True)) ks \<Longrightarrow>
   count_lesser_than fr diam ks (r, t) =
     Inr (r + length (filter (axon_has fr (\<lambda>a. diameter a < diam \<and> is_recruited a)) ks),
          t + length (filter (axon_has fr (\<lambda>a. diameter a < diam)) ks))"
  by (induction ks arbitrary: r t) (auto simp: axon_has_def split: sum.splits)

text \<open>
  Claim C4. On a fascicle whose axon keys hold axon results, with \<open>ks\<close> the keys that
  \<open>get_axons_key\<close> selects: \<open>get_recruited_axons_greater_than diam\<close> counts the recruited
  axons among those whose diameter strictly exceeds \<open>diam\<close>, \<open>get_recruited_axons_lesser_than\<close>
  among those whose diameter is strictly less; when normalising, each divides by the number
  of axons that satisfy its diameter test (and raises when there is none), not by the number
  of selected axons. For the diameters 3, 5, 7, 9 with flags T, F, T, T: greater than 5 gives
  2 recruited, ratio 1; lesser than 5 gives 1 recruited, ratio 1; the plain recruitment
  ratio is 3/4.
\<close>

theorem recruited_by_diameter:
  assumes "axon_entries_ok fr" and "get_axons_key fr ax_type = Inr ks"
  shows "get_recruited_axons_greater_than fr diam ax_type normalise =
           (let n_recr = length (filter (axon_has fr (\<lambda>a. diameter a > diam \<and> is_recruited a)) ks);
                n_tot = length (filter (axon_has fr (\<lambda>a. diameter a > diam)) ks)
            in if normalise
               then (if n_tot = 0 then Inl ZeroDivisionError else Inr (Ratio (real n_recr / real n_tot)))
               else Inr (Count n_recr)) \<and>
         get_recruited_axons_lesser_than fr diam ax_type normalise =
           (let n_recr = length (filter (axon_has fr (\<lambda>a. diameter a < diam \<and> is_recruited a)) ks);
                n_tot = length (filter (axon_has fr (\<lambda>a. diameter a < diam)) ks)
            in if normalise
               then (if n_tot = 0 then Inl ZeroDivisionError else Inr (Ratio (real n_recr / real n_tot)))
               else Inr (Count n_recr)) \<and>
         get_recruited_axons_greater_than fascicle_3579 5 ''all'' False = Inr (Count 2) \<and>
         get_recruited_axons_greater_than fascicle_3579 5 ''all'' True = Inr (Ratio 1) \<and>
         get_recruited_axons_lesser_than fascicle_3579 5 ''all'' False = Inr (Count 1) \<and>
         get_recruited_axons_lesser_than fascicle_3579 5 ''all'' True = Inr (Ratio 1) \<and>
         get_recruited_axons fascicle_3579 ''all'' True = Inr (Ratio (3 / 4))"
proof -
  have ok: "list_all (axon_has fr (\<lambda>a. True)) ks"
    using assms by (rule get_axons_key_ok)
  have gt: "get_recruited_axons_greater_than fr diam ax_type normalise =
           (let n_recr = length (filter (axon_has fr (\<lambda>a. diameter a > diam \<and> is_recruited a)) ks);
                n_tot = length (filter (axon_has fr (\<lambda>a. diameter a > diam)) ks)
            in if normalise
               then (if n_tot = 0 then Inl ZeroDivisionError else Inr (Ratio (real n_recr / real n_tot)))
               else Inr (Count n_recr))"
    by (simp add: get_recruited_axons_greater_than_def assms(2) count_greater_than_eq [OF ok]
                  normalized_def Let_def)
  have lt: "get_recruited_axons_lesser_than fr diam ax_type normalise =
           (let n_recr = length (filter (axon_has fr (\<lambda>a. diameter a < diam \<and> is_recruited a)) ks);
                n_tot = length (filter (axon_has fr (\<lambda>a. diameter a < diam)) ks)
            in if normalise
               then (if n_tot = 0 then Inl ZeroDivisionError else Inr (Ratio (real n_recr / real n_tot)))
               else Inr (Count n_recr))"
    by (simp add: get_recruited_axons_lesser_than_def assms(2) count_lesser_than_eq [OF ok]
                  normalized_def Let_def)
  have e1: "get_recruited_axons_greater_than fascicle_3579 5 ''all'' False = Inr (Count 2)"
    by (simp add: get_recruited_axons_greater_than_def fascicle_3579_keys)
       (simp add: fascicle_3579_def getaxon_def getitem_def example_axon_def is_recruited_def
                  normalized_def)
  have e2: "get_recruited_axons_greater_than fascicle_3579 5 ''all'' True = Inr (Ratio 1)"
    by (simp add: get_recruited_axons_greater_than_def fascicle_3579_keys)
       (simp add: fascicle_3579_def getaxon_def getitem_def example_axon_def is_recruited_def
                  normalized_def)
  have e3: "get_recruited_axons_lesser_than fascicle_3579 5 ''all'' False = Inr (Count 1)"
    by (simp add: get_recruited_axons_lesser_than_def fascicle_3579_keys)
       (simp add: fascicle_3579_def getaxon_def getitem_def example_axon_def is_recruited_def
                  normalized_def)
  have e4: "get_recruited_axons_lesser_than fascicle_3579 5 ''all'' True = Inr (Ratio 1)"
    by (simp add: get_recruited_axons_lesser_than_def fascicle_3579_keys)
       (simp add: fascicle_3579_def getaxon_def getitem_def example_axon_def is_recruited_def
                  normalized_def)
  have e5: "get_recruited_axons fascicle_3579 ''all'' True = Inr (Ratio (3 / 4))"
    by (simp add: get_recruited_axons_def get_n_ax_def fascicle_3579_keys)
       (simp add: fascicle_3579_def eval_keys example_axon_def is_recruited_def
                  normalized_def get_n_ax_def)
  show ?thesis using gt lt e1 e2 e3 e4 e5 by blast
qed

theorem recruited_by_diameter_witness:
  "axon_entries_ok fascicle_3579 \<and>
   get_axons_key fascicle_3579 ''myelinated'' = Inr [''axon0'', ''axon2'', ''axon3''] \<and>
   get_recruited_axons_greater_than fascicle_3579 3 ''myelinated'' True = Inr (Ratio 1) \<and>
   get_recruited_axons_lesser_than fascicle_3579 3 ''myelinated'' True = Inl ZeroDivisionError"
proof -
  have k: "get_axons_key fascicle_3579 ''myelinated'' = Inr [''axon0'', ''axon2'', ''axon3'']"
    by (simp add: fascicle_3579_def eval_keys example_axon_def)
  show ?thesis
    using recruited_by_diameter [OF fascicle_3579_ok k, of 3 True] fascicle_3579_ok k
    by (simp add: fascicle_3579_def axon_has_def getaxon_def getitem_def example_axon_def
                  is_recruited_def)
qed

subsection \<open>The conductivity of the fascicle is all or nothing\<close>

lemma collect_conductivity_None:
  "list_all (axon_has fr (\<lambda>a. True)) ks \<Longrightarrow>
   None \<in> set (map (sample_at axon_g fr x t unit mem_th) ks) \<Longrightarrow>
   collect_conductivity axon_g fr x t unit mem_th ks g = Inr None"
  by (induction ks arbitrary: g)
     (auto simp: axon_has_def sample_at_def split: sum.splits option.splits)

lemma collect_conductivity_Some:
  "list_all (axon_has fr (\<lambda>a. True)) ks \<Longrightarrow>
   None \<notin> set (map (sample_at axon_g fr x t unit mem_th) ks) \<Longrightarrow>
   \<exists>gs. collect_conductivity axon_g fr x t unit mem_th ks g = Inr (Some (g @ gs)) \<and>
        map Some gs = map (sample_at axon_g fr x t unit mem_th) ks"
proof (induction ks arbitrary: g)
  case Nil
  then show ?case by simp
next
  case (Cons k ks)
  from Cons.prems obtain a where a: "getaxon fr k = Inr a"
    by (auto dest: axon_has_getaxon)
  from Cons.prems a have "axon_g a x t unit mem_th \<noteq> None"
    by (auto simp: sample_at_def)
  then obtain v where v: "axon_g a x t unit mem_th = Some v"
    by blast
  from Cons.prems have "list_all (axon_has fr (\<lambda>a. True)) ks"
    and "None \<notin> set (map (sample_at axon_g fr x t unit mem_th) ks)" by auto
  from Cons.IH [OF this, of "g @ [v]"] obtain gs where
    gs: "collect_conductivity axon_g fr x t unit mem_th ks (g @ [v]) = Inr (Some ((g @ [v]) @ gs))"
        "map Some gs = map (sample_at axon_g fr x t unit mem_th) ks" by blast
  have "collect_conductivity axon_g fr x t unit mem_th (k # ks) g = Inr (Some (g @ (v # gs)))"
    using a v gs(1) by simp
  moreover have "map Some (v # gs) = map (sample_at axon_g fr x t unit mem_th) (k # ks)"
    using a v gs(2) by (simp add: sample_at_def)
  ultimately show ?case by blast
qed

text \<open>
  Claim C1. On a fascicle whose axon keys hold axon results, with the per-axon samples
  taken in the order of the axon keys: if the sample of at least one axon is unavailable
  (\<open>None\<close>), \<open>get_membrane_conductivity\<close> returns \<open>None\<close> for the whole fascicle; if every
  sample is available, it returns the array of all samples in axon-key order; an array it
  returns is never partial, it has one entry per axon key.
\<close>

theorem membrane_conductivity_all_or_nothing:
  assumes "axon_entries_ok fr"
  shows "let a_keys = filter is_axon_key (keys fr);
             samples = map (sample_at axon_g fr x t unit mem_th) a_keys
         in get_axons_key fr ''all'' = Inr a_keys \<and>
            (None \<in> set samples \<longrightarrow>
               get_membrane_conductivity axon_g fr x t unit mem_th = Inr None) \<and>
            (None \<notin> set samples \<longrightarrow>
               (\<exists>g. get_membrane_conductivity axon_g fr x t unit mem_th = Inr (Some g) \<and>
                    map Some g = samples)) \<and>
            (\<forall>g. get_membrane_conductivity axon_g fr x t unit mem_th = Inr (Some g) \<longrightarrow>
                 length g = length a_keys)"
proof -
  let ?ks = "filter is_axon_key (keys fr)"
  let ?samples = "map (sample_at axon_g fr x t unit mem_th) ?ks"
  have ok: "list_all (axon_has fr (\<lambda>a. True)) ?ks"
    using assms by (simp add: axon_entries_ok_def)
  have al: "get_axons_key fr ''all'' = Inr ?ks"
    by (simp add: get_axons_key_def recognized_axon_types_def)
  have run: "get_membrane_conductivity axon_g fr x t unit mem_th =
               collect_conductivity axon_g fr x t unit mem_th ?ks []"
    by (simp add: get_membrane_conductivity_def al)
  have none: "get_membrane_conductivity axon_g fr x t unit mem_th = Inr None"
    if "None \<in> set ?samples"
    using collect_conductivity_None [OF ok that] run by simp
  have some: "\<exists>g. get_membrane_conductivity axon_g fr x t unit mem_th = Inr (Some g) \<and>
                   map Some g = ?samples"
    if "None \<notin> set ?samples"
    using collect_conductivity_Some [OF ok that, of "[]"] run by simp
  have len: "length g = length ?ks"
    if "get_membrane_conductivity axon_g fr x t unit mem_th = Inr (Some g)" for g
  proof (cases "None \<in> set ?samples")
    case True
    from none [OF True] that show ?thesis by simp
  next
    case False
    from some [OF False] that have "map Some g = ?samples" by auto
    then have "length (map Some g) = length ?samples" by simp
    then show ?thesis by simp
  qed
  show ?thesis
    unfolding Let_def using al none some len by blast
qed

theorem membrane_conductivity_all_or_nothing_witness:
  "axon_entries_ok fascicle_3579 \<and>
   sample_at unavailable_at_5 fascicle_3579 0 0 ''S/cm**2'' (7 / 1000) ''axon1'' = None \<and>
   get_membrane_conductivity unavailable_at_5 fascicle_3579 0 0 ''S/cm**2'' (7 / 1000) = Inr None \<and>
   get_membrane_conductivity (\<lambda>a x t unit mem_th. Some (diameter a)) fascicle_3579 0 0 ''S/cm**2'' (7 / 1000) = Inr (Some [3, 5, 7, 9])"
proof -
  have s: "map (sample_at unavailable_at_5 fascicle_3579 0 0 ''S/cm**2'' (7 / 1000))
              (filter is_axon_key (keys fascicle_3579)) = [Some 6, None, Some 14, Some 18]"
    by (simp add: fascicle_3579_def sample_at_def unavailable_at_5_def eval_keys example_axon_def)
  have s': "map (sample_at (\<lambda>a x t unit mem_th. Some (diameter a)) fascicle_3579 0 0 ''S/cm**2'' (7 / 1000))
              (filter is_axon_key (keys fascicle_3579)) = map Some [3, 5, 7, 9]"
    by (simp add: fascicle_3579_def sample_at_def eval_keys example_axon_def)
  have s1: "sample_at unavailable_at_5 fascicle_3579 0 0 ''S/cm**2'' (7 / 1000) ''axon1'' = None"
    by (simp add: fascicle_3579_def sample_at_def unavailable_at_5_def eval_keys example_axon_def)
  show ?thesis
    using membrane_conductivity_all_or_nothing [OF fascicle_3579_ok, of unavailable_at_5 0 0 "''S/cm**2''" "7 / 1000"]
          membrane_conductivity_all_or_nothing [OF fascicle_3579_ok, of "\<lambda>a x t unit mem_th. Some (diameter a)" 0 0 "''S/cm**2''" "7 / 1000"]
          fascicle_3579_ok s1
    unfolding Let_def s s' by auto
qed

subsection \<open>The capacitance dispatches on the unit string\<close>

lemma str_in_char: "str_in [c] s \<longleftrightarrow> c \<in> set s"
  by (induction s) auto

text \<open>
  Claim C9. \<open>get_membrane_capacitance\<close> dispatches on whether the unit string contains the
  character "2". If it does, the surface values of the two membrane models are converted
  from \<^verbatim>\<open>S/cm**2\<close> to the unit with no thickness scaling: the result does not depend on
  \<open>mem_th\<close>, and for a unit whose conversion from \<^verbatim>\<open>S/cm**2\<close> is the identity (as for
  \<^verbatim>\<open>S/cm**2\<close> itself) the result is the pair of surface values. If it does not, each
  surface value is first multiplied by the membrane thickness in centimetres and then
  converted from \<^verbatim>\<open>S/cm\<close>.
\<close>

theorem membrane_capacitance_unit_dispatch:
  assumes "getparams fr ''unmyelinated_param'' = Inr up"
      and "getparams fr ''myelinated_param'' = Inr mp"
  shows "(CHR ''2'' \<in> set unit \<longrightarrow>
            get_membrane_capacitance cap convert from_nrv_unit fr unit mem_th =
              Inr (convert (cap (model up)) ''S/cm**2'' unit, convert (cap (model mp)) ''S/cm**2'' unit) \<and>
            (\<forall>mem_th'. get_membrane_capacitance cap convert from_nrv_unit fr unit mem_th' =
                        get_membrane_capacitance cap convert from_nrv_unit fr unit mem_th) \<and>
            ((\<forall>v. convert v ''S/cm**2'' unit = v) \<longrightarrow>
               get_membrane_capacitance cap convert from_nrv_unit fr unit mem_th =
                 Inr (cap (model up), cap (model mp)))) \<and>
         (CHR ''2'' \<notin> set unit \<longrightarrow>
            get_membrane_capacitance cap convert from_nrv_unit fr unit mem_th =
              Inr (convert (cap (model up) * from_nrv_unit mem_th ''cm'') ''S/cm'' unit,
                   convert (cap (model mp) * from_nrv_unit mem_th ''cm'') ''S/cm'' unit))"
  using assms by (simp add: get_membrane_capacitance_def str_in_char Let_def)

theorem membrane_capacitance_unit_dispatch_witness:
  "getparams fascicle_with_params ''unmyelinated_param'' = Inr \<lparr>model = ''Rattay_Aberham''\<rparr> \<and>
   getparams fascicle_with_params ''myelinated_param'' = Inr \<lparr>model = ''MRG''\<rparr> \<and>
   CHR ''2'' \<in> set ''S/cm**2'' \<and>
   (\<forall>v. example_convert v ''S/cm**2'' ''S/cm**2'' = v) \<and>
   get_membrane_capacitance example_capacitance example_convert example_from_nrv_unit
     fascicle_with_params ''S/cm**2'' (7 / 1000) = Inr (1, 2) \<and>
   CHR ''2'' \<notin> set ''S/m'' \<and>
   get_membrane_capacitance example_capacitance example_convert example_from_nrv_unit
     fascicle_with_params ''S/m'' (7 / 1000) = Inr (7 / 10 ^ 5, 14 / 10 ^ 5)"
proof -
  have u: "getparams fascicle_with_params ''unmyelinated_param'' = Inr \<lparr>model = ''Rattay_Aberham''\<rparr>"
    by (simp add: getparams_def fascicle_with_params_def)
  have m: "getparams fascicle_with_params ''myelinated_param'' = Inr \<lparr>model = ''MRG''\<rparr>"
    by (simp add: getparams_def fascicle_with_params_def)
  have c: "\<forall>v. example_convert v ''S/cm**2'' ''S/cm**2'' = v"
    by (simp add: example_convert_def example_unit_def)
  show ?thesis
    using membrane_capacitance_unit_dispatch [OF u m, of "''S/cm**2''" example_capacitance example_convert example_from_nrv_unit "7 / 1000"]
          membrane_capacitance_unit_dispatch [OF u m, of "''S/m''" example_capacitance example_convert example_from_nrv_unit "7 / 1000"]
          u m c
    by (simp add: example_capacitance_def example_convert_def example_from_nrv_unit_def example_unit_def)
qed

subsection \<open>The opacity factor of the block summary plot\<close>

lemma circle_alphas_append: "circle_alphas (xs @ ys) = circle_alphas xs @ circle_alphas ys"
  by (induction xs rule: circle_alphas.induct) auto

lemma block_summary_loop_lengths:
  "block_summary_loop bs AP_start freq t_refractory ks fr acc = Inr (fr', ls) \<Longrightarrow>
   same_lengths acc n \<Longrightarrow> same_lengths ls (n + length ks)"
proof (induction ks arbitrary: fr acc n)
  case Nil
  then show ?case by simp
next
  case (Cons k ks)
  from Cons.prems(1) obtain a where a: "getaxon fr k = Inr a"
    by (auto split: sum.splits)
  let ?a = "bs a AP_start freq t_refractory"
  let ?acc = "\<lparr>axon_diam = axon_diam acc @ [diameter ?a],
                axon_type = axon_type acc @ [myelinated ?a],
                axon_ys = axon_ys acc @ [axon_y ?a],
                axon_zs = axon_zs acc @ [axon_z ?a],
                blocked_list = blocked_list acc @ [is_blocked ?a],
                n_onset_list = n_onset_list acc @ [n_onset ?a]\<rparr>"
  have run: "block_summary_loop bs AP_start freq t_refractory ks (setitem fr k (Axon ?a)) ?acc = Inr (fr', ls)"
    using Cons.prems(1) a by (simp add: Let_def)
  have "same_lengths ?acc (Suc n)"
    using Cons.prems(2) by (simp add: same_lengths_def)
  from Cons.IH [OF run this] show ?case by simp
qed

lemma get_block_summary_axons_lengths:
  assumes "get_block_summary_axons bs fr AP_start freq t_refractory = Inr (fr', ls)"
  shows "same_lengths ls (length (n_onset_list ls))"
proof -
  from assms obtain ks where
    "block_summary_loop bs AP_start freq t_refractory ks fr
       \<lparr>axon_diam = [], axon_type = [], axon_ys = [], axon_zs = [],
        blocked_list = [], n_onset_list = []\<rparr> = Inr (fr', ls)"
    by (auto simp: get_block_summary_axons_def split: sum.splits)
  from block_summary_loop_lengths [OF this, of 0]
  have "same_lengths ls (length ks)" by (simp add: same_lengths_def)
  then show ?thesis by (simp add: same_lengths_def)
qed

lemma fold_max: "fold max xs (x::nat) = Max (set (x # xs))"
  by (rule Max.set_eq_fold [symmetric])

lemma np_max_Max: "xs \<noteq> [] \<Longrightarrow> np_max xs = Inr (Max (set xs))"
  by (cases xs) (simp_all add: np_max_def fold_max del: set_simps)

lemma plot_axons_alphas:
  "length ds = length ns \<Longrightarrow> length ys = length ns \<Longrightarrow> length zs = length ns \<Longrightarrow>
   length bs = length ns \<Longrightarrow>
   circle_alphas (plot_axons alpha_g ds ys zs bs ns) =
     map2 (\<lambda>b n. if n = 0 then (if b = Some True then Finite 1 else Finite (1/2))
                 else times_count n alpha_g) bs ns"
proof (induction alpha_g ds ys zs bs ns rule: plot_axons.induct)
  case (1 alpha_g d ds yk ys zk zs b bs n ns)
  then show ?case
    by (simp add: circle_alphas_append axon_drawing_def)
qed simp_all

lemma map_of_setitem:
  "map_of (setitem fr k v) k' =
     (if k' = k then map_option (\<lambda>old. v) (map_of fr k) else map_of fr k')"
  by (induction fr) (auto simp: setitem_def)

lemma axon_has_setitem:
  "axon_has fr (\<lambda>a. True) k' \<Longrightarrow> axon_has (setitem fr k (Axon a)) (\<lambda>a. True) k'"
  by (auto simp: axon_has_def getaxon_def getitem_def map_of_setitem
           split: option.splits sum.splits entry.splits)

lemma block_summary_loop_total:
  "list_all (axon_has fr (\<lambda>a. True)) ks \<Longrightarrow>
   \<exists>fr' ls. block_summary_loop bs AP_start freq t_refractory ks fr acc = Inr (fr', ls)"
proof (induction ks arbitrary: fr acc)
  case Nil
  then show ?case by simp
next
  case (Cons k ks)
  from Cons.prems obtain a where a: "getaxon fr k = Inr a"
    by (auto dest: axon_has_getaxon)
  have "list_all (axon_has (setitem fr k (Axon (bs a AP_start freq t_refractory))) (\<lambda>a. True)) ks"
    using Cons.prems by (auto simp: list_all_iff intro: axon_has_setitem)
  from Cons.IH [OF this] show ?case
    using a by (simp add: Let_def)
qed

lemma get_block_summary_axons_total:
  assumes "axon_entries_ok fr"
  shows "\<exists>fr' ls. get_block_summary_axons bs fr AP_start freq t_refractory = Inr (fr', ls) \<and>
                  length (n_onset_list ls) = length (filter is_axon_key (keys fr))"
proof -
  let ?ks = "filter is_axon_key (keys fr)"
  let ?e = "\<lparr>axon_diam = [], axon_type = [], axon_ys = [], axon_zs = [],
             blocked_list = [], n_onset_list = []\<rparr>"
  have ok: "list_all (axon_has fr (\<lambda>a. True)) ?ks"
    using assms by (simp add: axon_entries_ok_def)
  from block_summary_loop_total [OF ok] obtain fr' ls where
    run: "block_summary_loop bs AP_start freq t_refractory ?ks fr ?e = Inr (fr', ls)" by blast
  from block_summary_loop_lengths [OF run, of 0]
  have "length (n_onset_list ls) = length ?ks" by (simp add: same_lengths_def)
  moreover have "get_block_summary_axons bs fr AP_start freq t_refractory = Inr (fr', ls)"
    using run by (simp add: get_block_summary_axons_def get_axons_key_def recognized_axon_types_def)
  ultimately show ?thesis by blast
qed

text \<open>The block summaries only replace axon entries: every other entry of the dictionary
  is still there afterwards, so what the plot reads after the loop is what it would have
  read before.\<close>

lemma block_summary_loop_keeps:
  "block_summary_loop bs AP_start freq t_refractory ks fr acc = Inr (fr', ls) \<Longrightarrow>
   map_of fr k = Some v \<Longrightarrow> (\<forall>a. v \<noteq> Axon a) \<Longrightarrow> map_of fr' k = Some v"
proof (induction ks arbitrary: fr acc)
  case Nil
  then show ?case by simp
next
  case (Cons axon rest)
  from Cons.prems(1) obtain a where a: "getaxon fr axon = Inr a"
    by (auto split: sum.splits)
  then have "map_of fr axon = Some (Axon a)"
    by (auto simp: getaxon_def getitem_def split: option.splits entry.splits)
  with Cons.prems(2,3) have "k \<noteq> axon" by auto
  then have kept: "map_of (setitem fr axon (Axon (bs a AP_start freq t_refractory))) k = Some v"
    using Cons.prems(2) by (simp add: map_of_setitem)
  from Cons.prems(1) a obtain acc' where
    "block_summary_loop bs AP_start freq t_refractory rest
       (setitem fr axon (Axon (bs a AP_start freq t_refractory))) acc' = Inr (fr', ls)"
    by (simp add: Let_def)
  from Cons.IH [OF this kept Cons.prems(3)] show ?case .
qed

lemma get_block_summary_axons_keeps:
  assumes "get_block_summary_axons bs fr AP_start freq t_refractory = Inr (fr', ls)"
      and "map_of fr k = Some v" and "\<forall>a. v \<noteq> Axon a"
  shows "map_of fr' k = Some v"
proof -
  from assms(1) obtain ks acc where
    "block_summary_loop bs AP_start freq t_refractory ks fr acc = Inr (fr', ls)"
    by (auto simp: get_block_summary_axons_def split: sum.splits)
  from block_summary_loop_keeps [OF this assms(2,3)] show ?thesis .
qed

lemma getnumber_Inr: "getnumber fr k = Inr x \<longleftrightarrow> map_of fr k = Some (Number x)"
  by (auto simp: getnumber_def split: option.splits entry.splits)

lemma getnumbers_Inr: "getnumbers fr k = Inr xs \<longleftrightarrow> map_of fr k = Some (Numbers xs)"
  by (auto simp: getnumbers_def split: option.splits entry.splits)

lemma getnumber_keeps:
  assumes "get_block_summary_axons bs fr AP_start freq t_refractory = Inr (fr', ls)"
      and "getnumber fr k = Inr x"
  shows "getnumber fr' k = Inr x"
  using get_block_summary_axons_keeps [OF assms(1), of k "Number x"] assms(2)
  by (simp add: getnumber_Inr)

lemma getnumbers_keeps:
  assumes "get_block_summary_axons bs fr AP_start freq t_refractory = Inr (fr', ls)"
      and "getnumbers fr k = Inr xs"
  shows "getnumbers fr' k = Inr xs"
  using get_block_summary_axons_keeps [OF assms(1), of k "Numbers xs"] assms(2)
  by (simp add: getnumbers_Inr)

lemma plot_extra_stim_keeps:
  assumes "get_block_summary_axons bs fr AP_start freq t_refractory = Inr (fr', ls)"
      and "plot_extra_stim fr = Inr stim"
  shows "plot_extra_stim fr' = Inr stim"
proof -
  from assms(2) consider
      "map_of fr ''extra_stim'' = Some NoneValue" "stim = []"
    | d where "map_of fr ''extra_stim'' = Some Stimulation" "getnumber fr ''D'' = Inr d"
        "stim = [Stim_plot ''gold'' d]"
    by (auto simp: plot_extra_stim_def split: option.splits entry.splits sum.splits)
  then show ?thesis
  proof cases
    case 1
    from get_block_summary_axons_keeps [OF assms(1) 1(1)] 1(2) show ?thesis
      by (simp add: plot_extra_stim_def)
  next
    case 2
    from get_block_summary_axons_keeps [OF assms(1) 2(1)] getnumber_keeps [OF assms(1) 2(2)] 2(3)
    show ?thesis by (simp add: plot_extra_stim_def)
  qed
qed

lemma label_loop_keeps:
  assumes "get_block_summary_axons bs fr AP_start freq t_refractory = Inr (fr', ls)"
  shows "label_loop fr ks = Inr labels \<Longrightarrow> label_loop fr' ks = Inr labels"
proof (induction ks arbitrary: labels)
  case Nil
  then show ?case by simp
next
  case (Cons k rest)
  from Cons.prems obtain ys zs yk zk r where
    ys: "getnumbers fr ''axons_y'' = Inr ys" and yk: "list_getitem ys (int k) = Inr yk" and
    zs: "getnumbers fr ''axons_z'' = Inr zs" and zk: "list_getitem zs (int k) = Inr zk" and
    r: "label_loop fr rest = Inr r" and l: "labels = Label yk zk k # r"
    by (auto split: sum.splits)
  from getnumbers_keeps [OF assms ys] getnumbers_keeps [OF assms zs] yk zk Cons.IH [OF r] l
  show ?case by simp
qed

lemma plot_labels_keeps:
  assumes "get_block_summary_axons bs fr AP_start freq t_refractory = Inr (fr', ls)"
      and "plot_labels fr num = Inr labels"
  shows "plot_labels fr' num = Inr labels"
proof (cases num)
  case False
  with assms(2) show ?thesis by (simp add: plot_labels_def)
next
  case True
  with assms(2) obtain ad where
    ad: "getnumbers fr ''axons_diameter'' = Inr ad" and
    l: "label_loop fr [0..<length ad] = Inr labels"
    by (auto simp: plot_labels_def split: sum.splits)
  from getnumbers_keeps [OF assms(1) ad] label_loop_keeps [OF assms(1) l] True
  show ?thesis by (simp add: plot_labels_def)
qed

lemma plot_extra_stim_alphas: "plot_extra_stim fr = Inr stim \<Longrightarrow> circle_alphas stim = []"
  by (auto simp: plot_extra_stim_def split: option.splits entry.splits sum.splits)

lemma label_loop_alphas: "label_loop fr ks = Inr labels \<Longrightarrow> circle_alphas labels = []"
  by (induction ks arbitrary: labels) (auto split: sum.splits)

lemma plot_labels_alphas: "plot_labels fr num = Inr labels \<Longrightarrow> circle_alphas labels = []"
  by (auto simp: plot_labels_def dest: label_loop_alphas split: if_splits sum.splits)

text \<open>
  Claim C10. \<open>plot_block_summary\<close> computes the factor \<open>alpha_g\<close> as one over the maximum
  onset count before it looks at any axon. On the coordinating process, for a fascicle that
  carries what the plot reads (its centre and diameter, the stimulation context and, when
  the labels are asked for, the arrays of the axon positions), with the lists that
  \<open>get_block_summary_axons\<close> returns for at least one axon: if every onset count is zero, the
  maximum is zero and the division is a division by zero (numpy reports it and yields
  \<open>inf\<close>), although every circle then gets a fixed opacity (1 when blocked, 1/2 otherwise);
  if some onset count is positive, the factor is the finite \<open>1 / m\<close> for the maximum \<open>m\<close>,
  nothing is reported, and the circle of every axon with a non-zero onset count has the
  opacity onset count over \<open>m\<close>.
\<close>

theorem plot_block_summary_opacity:
  assumes "get_block_summary_axons block_summary fr AP_start freq t_refractory = Inr (fr', ls)"
      and "n_onset_list ls \<noteq> []"
      and "getnumber fr ''y_grav_center'' = Inr yc"
      and "getnumber fr ''z_grav_center'' = Inr zc"
      and "getnumber fr ''D'' = Inr dd"
      and "plot_extra_stim fr = Inr stim"
      and "plot_labels fr num = Inr labels"
  shows "(list_all (\<lambda>n. n = 0) (n_onset_list ls) \<longrightarrow>
            np_max (n_onset_list ls) = Inr 0 \<and>
            one_over 0 = ([divide_by_zero_warning], PosInf) \<and>
            (\<exists>ds. plot_block_summary block_summary True fr AP_start freq t_refractory
                     contour_color num = Inr (fr', [divide_by_zero_warning], ds) \<and>
                   circle_alphas ds =
                     map (\<lambda>b. if b = Some True then Finite 1 else Finite (1 / 2)) (blocked_list ls))) \<and>
         (list_ex (\<lambda>n. n > 0) (n_onset_list ls) \<longrightarrow>
            (\<exists>m. np_max (n_onset_list ls) = Inr m \<and> m = Max (set (n_onset_list ls)) \<and> m > 0 \<and>
                 one_over m = ([], Finite (1 / real m)) \<and>
                 (\<exists>ds. plot_block_summary block_summary True fr AP_start freq t_refractory
                          contour_color num = Inr (fr', [], ds) \<and>
                        circle_alphas ds =
                          map2 (\<lambda>b n. if n = 0
                                       then (if b = Some True then Finite 1 else Finite (1 / 2))
                                       else Finite (real n / real m))
                            (blocked_list ls) (n_onset_list ls))))"
proof (intro conjI impI)
  let ?ns = "n_onset_list ls"
  have len: "same_lengths ls (length ?ns)"
    using assms(1) by (rule get_block_summary_axons_lengths)
  have mx: "np_max ?ns = Inr (Max (set ?ns))"
    using assms(2) by (rule np_max_Max)
  have alphas: "circle_alphas (plot_axons alpha_g (axon_diam ls) (axon_ys ls) (axon_zs ls) (blocked_list ls) ?ns) =
     map2 (\<lambda>b n. if n = 0 then (if b = Some True then Finite 1 else Finite (1/2))
                 else times_count n alpha_g) (blocked_list ls) ?ns" for alpha_g
    using len by (intro plot_axons_alphas) (simp_all add: same_lengths_def)
  have yc': "getnumber fr' ''y_grav_center'' = Inr yc"
    and zc': "getnumber fr' ''z_grav_center'' = Inr zc"
    and dd': "getnumber fr' ''D'' = Inr dd"
    using assms(1,3,4,5) by (auto intro: getnumber_keeps)
  have stim': "plot_extra_stim fr' = Inr stim"
    using assms(1,6) by (rule plot_extra_stim_keeps)
  have labels': "plot_labels fr' num = Inr labels"
    using assms(1,7) by (rule plot_labels_keeps)
  have rest: "circle_alphas stim = []" "circle_alphas labels = []"
    using assms(6,7) by (auto dest: plot_extra_stim_alphas plot_labels_alphas)
  have run: "plot_block_summary block_summary True fr AP_start freq t_refractory contour_color num =
               Inr (fr', fst (one_over (Max (set ?ns))),
                    [Contour yc zc (dd / 2) contour_color] @
                    plot_axons (snd (one_over (Max (set ?ns)))) (axon_diam ls) (axon_ys ls)
                      (axon_zs ls) (blocked_list ls) ?ns @
                    stim @ labels @
                    [Xlim (- (11 / 10) * dd / 2 + yc) (11 / 10 * dd / 2 + yc),
                     Ylim (- (11 / 10) * dd / 2 + zc) (11 / 10 * dd / 2 + zc)])"
    by (simp add: plot_block_summary_def assms(1,3,4,5) mx stim' labels' axis_limits_def
                  yc' zc' dd' split: prod.splits)
  have shown: "circle_alphas
                 ([Contour yc zc (dd / 2) contour_color] @
                  plot_axons alpha_g (axon_diam ls) (axon_ys ls) (axon_zs ls) (blocked_list ls) ?ns @
                  stim @ labels @
                  [Xlim (- (11 / 10) * dd / 2 + yc) (11 / 10 * dd / 2 + yc),
                   Ylim (- (11 / 10) * dd / 2 + zc) (11 / 10 * dd / 2 + zc)]) =
               map2 (\<lambda>b n. if n = 0 then (if b = Some True then Finite 1 else Finite (1/2))
                 else times_count n alpha_g) (blocked_list ls) ?ns" for alpha_g
    using alphas [of alpha_g] rest by (simp add: circle_alphas_append)
  {
    assume zero: "list_all (\<lambda>n. n = 0) ?ns"
    then have "set ?ns = {0}"
      using assms(2) by (cases ?ns) (auto simp: list_all_iff)
    then have m0: "Max (set ?ns) = 0" by simp
    show "np_max ?ns = Inr 0" using mx m0 by simp
    show "one_over 0 = ([divide_by_zero_warning], PosInf)" by (simp add: one_over_def)
    have "map2 (\<lambda>b n. if n = 0 then (if b = Some True then Finite 1 else Finite (1/2))
                 else times_count n PosInf) (blocked_list ls) ?ns =
          map (\<lambda>b. if b = Some True then Finite 1 else Finite (1 / 2)) (blocked_list ls)"
      using zero len
      by (intro nth_equalityI) (auto simp: same_lengths_def list_all_iff)
    then show "\<exists>ds. plot_block_summary block_summary True fr AP_start freq t_refractory
                     contour_color num = Inr (fr', [divide_by_zero_warning], ds) \<and>
                   circle_alphas ds =
                     map (\<lambda>b. if b = Some True then Finite 1 else Finite (1 / 2)) (blocked_list ls)"
      using run shown [of PosInf] m0 by (simp add: one_over_def)
  }
  {
    assume pos: "list_ex (\<lambda>n. n > 0) ?ns"
    let ?m = "Max (set ?ns)"
    from pos obtain n where "n \<in> set ?ns" "n > 0" by (auto simp: list_ex_iff)
    then have mpos: "?m > 0"
      by (meson List.finite_set Max_ge less_le_trans)
    have "map2 (\<lambda>b n. if n = 0 then (if b = Some True then Finite 1 else Finite (1/2))
                 else times_count n (Finite (1 / real ?m))) (blocked_list ls) ?ns =
          map2 (\<lambda>b n. if n = 0 then (if b = Some True then Finite 1 else Finite (1 / 2))
                 else Finite (real n / real ?m)) (blocked_list ls) ?ns"
      by auto
    then have "\<exists>ds. plot_block_summary block_summary True fr AP_start freq t_refractory
                          contour_color num = Inr (fr', [], ds) \<and>
                        circle_alphas ds =
                          map2 (\<lambda>b n. if n = 0
                                       then (if b = Some True then Finite 1 else Finite (1 / 2))
                                       else Finite (real n / real ?m))
                            (blocked_list ls) ?ns"
      using run shown [of "Finite (1 / real ?m)"] mpos by (simp add: one_over_def)
    then show "\<exists>m. np_max ?ns = Inr m \<and> m = Max (set ?ns) \<and> m > 0 \<and>
                 one_over m = ([], Finite (1 / real m)) \<and>
                 (\<exists>ds. plot_block_summary block_summary True fr AP_start freq t_refractory
                          contour_color num = Inr (fr', [], ds) \<and>
                        circle_alphas ds =
                          map2 (\<lambda>b n. if n = 0
                                       then (if b = Some True then Finite 1 else Finite (1 / 2))
                                       else Finite (real n / real m))
                            (blocked_list ls) ?ns)"
      using mx mpos by (auto simp: one_over_def)
  }
qed

lemmas eval_block = get_block_summary_axons_def fascicle_plot_def eval_keys example_axon_def
  setitem_def Let_def

lemmas eval_plot = getnumber_def getnumbers_def plot_extra_stim_def plot_labels_def
  list_getitem_def fascicle_plot_def

theorem plot_block_summary_opacity_witness:
  "(\<exists>fr' ls ds.
      get_block_summary_axons silent_block_summary fascicle_plot 1 None 1 = Inr (fr', ls) \<and>
      n_onset_list ls = [0, 0, 0, 0] \<and>
      plot_block_summary silent_block_summary True fascicle_plot 1 None 1 ''k'' True =
        Inr (fr', [divide_by_zero_warning], ds) \<and>
      circle_alphas ds = [Finite 1, Finite 1, Finite 1, Finite 1]) \<and>
   (\<exists>fr' ls ds.
      get_block_summary_axons example_block_summary fascicle_plot 1 None 1 = Inr (fr', ls) \<and>
      n_onset_list ls = [2, 0, 0, 1] \<and>
      plot_block_summary example_block_summary True fascicle_plot 1 None 1 ''k'' False =
        Inr (fr', [], ds) \<and>
      circle_alphas ds = [Finite 1, Finite (1 / 2), Finite 1, Finite (1 / 2)])"
proof
  have y: "getnumber fascicle_plot ''y_grav_center'' = Inr 10"
    and z: "getnumber fascicle_plot ''z_grav_center'' = Inr 20"
    and d: "getnumber fascicle_plot ''D'' = Inr 100"
    and st: "plot_extra_stim fascicle_plot = Inr [Stim_plot ''gold'' 100]"
    by (simp_all add: eval_plot)
  have lb: "plot_labels fascicle_plot True =
              Inr [Label 1 5 0, Label 2 6 1, Label 3 7 2, Label 4 8 3]"
    by (simp add: eval_plot upt_rec [of _ "Suc _"] upt_rec [of _ "numeral _"])
  have "\<exists>fr' ls. get_block_summary_axons silent_block_summary fascicle_plot 1 None 1 = Inr (fr', ls) \<and>
          n_onset_list ls = [0, 0, 0, 0] \<and> blocked_list ls = [Some True, Some True, Some True, Some True]"
    by (simp add: eval_block silent_block_summary_def)
  then obtain fr' ls where
    r: "get_block_summary_axons silent_block_summary fascicle_plot 1 None 1 = Inr (fr', ls)"
    and n: "n_onset_list ls = [0, 0, 0, 0]"
    and b: "blocked_list ls = [Some True, Some True, Some True, Some True]" by blast
  from n have ne: "n_onset_list ls \<noteq> []" by simp
  from plot_block_summary_opacity [OF r ne y z d st lb, of "''k''"] n b r
  show "\<exists>fr' ls ds.
      get_block_summary_axons silent_block_summary fascicle_plot 1 None 1 = Inr (fr', ls) \<and>
      n_onset_list ls = [0, 0, 0, 0] \<and>
      plot_block_summary silent_block_summary True fascicle_plot 1 None 1 ''k'' True =
        Inr (fr', [divide_by_zero_warning], ds) \<and>
      circle_alphas ds = [Finite 1, Finite 1, Finite 1, Finite 1]"
    by auto
next
  have y: "getnumber fascicle_plot ''y_grav_center'' = Inr 10"
    and z: "getnumber fascicle_plot ''z_grav_center'' = Inr 20"
    and d: "getnumber fascicle_plot ''D'' = Inr 100"
    and st: "plot_extra_stim fascicle_plot = Inr [Stim_plot ''gold'' 100]"
    and lb: "plot_labels fascicle_plot False = Inr []"
    by (simp_all add: eval_plot)
  have "\<exists>fr' ls. get_block_summary_axons example_block_summary fascicle_plot 1 None 1 = Inr (fr', ls) \<and>
          n_onset_list ls = [2, 0, 0, 1] \<and> blocked_list ls = [Some False, None, Some True, Some True]"
    by (simp add: eval_block example_block_summary_def)
  then obtain fr' ls where
    r: "get_block_summary_axons example_block_summary fascicle_plot 1 None 1 = Inr (fr', ls)"
    and n: "n_onset_list ls = [2, 0, 0, 1]"
    and b: "blocked_list ls = [Some False, None, Some True, Some True]" by blast
  from n have ne: "n_onset_list ls \<noteq> []" by simp
  from plot_block_summary_opacity [OF r ne y z d st lb, of "''k''"] n b r
  show "\<exists>fr' ls ds.
      get_block_summary_axons example_block_summary fascicle_plot 1 None 1 = Inr (fr', ls) \<and>
      n_onset_list ls = [2, 0, 0, 1] \<and>
      plot_block_summary example_block_summary True fascicle_plot 1 None 1 ''k'' False =
        Inr (fr', [], ds) \<and>
      circle_alphas ds = [Finite 1, Finite (1 / 2), Finite 1, Finite (1 / 2)]"
    by auto
qed

text \<open>A fascicle without the centre and the diameter makes the contour raise before any
  block summary or division; with them and without any axon \<^verbatim>\<open>np.max\<close> raises before the
  division; on another process nothing happens.\<close>

lemma plot_block_summary_no_contour:
  "plot_block_summary block_summary True fascicle_3579 AP_start freq t_refractory contour_color num
     = Inl AttributeError"
  by (simp add: plot_block_summary_def getnumber_def fascicle_3579_def)

lemma plot_block_summary_no_axon:
  "plot_block_summary block_summary True
     [(''D'', Number 100), (''y_grav_center'', Number 0), (''z_grav_center'', Number 0)]
     AP_start freq t_refractory contour_color num
     = Inl ValueError"
  by (simp add: plot_block_summary_def getnumber_def get_block_summary_axons_def eval_keys
                np_max_def)

lemma plot_block_summary_not_master:
  "plot_block_summary block_summary False fr AP_start freq t_refractory contour_color num
     = Inr (fr, [], [])"
  by (simp add: plot_block_summary_def)

section \<open>Properties of the myelinated results\<close>

subsection \<open>The section type of a computation point\<close>

lemma sequence_index_range:
  "0 \<le> ((n - 1) div d) mod 11 \<and> ((n - 1) div d) mod 11 < (11::int)"
  by simp

lemma list_getitem_nat: "0 \<le> i \<Longrightarrow> nat i < length xs \<Longrightarrow> list_getitem xs i = Inr (xs ! nat i)"
  by (auto simp: list_getitem_def)

lemma get_index_label:
  assumes "rec m \<noteq> ''nodes''" and "Nseg_per_sec m \<noteq> - 1" and "11 \<le> length (axon_path_type m)"
  shows "get_index_myelinated_sequence m n =
           (if n > int (length (x_rec m)) then [''index not in axon''] else [],
            Inr (sequence_label m n))"
proof -
  let ?i = "((n - 1) div (Nseg_per_sec m + 1)) mod 11"
  have "0 \<le> ?i" "?i < 11" by simp_all
  then have "list_getitem (axon_path_type m) ?i = Inr (axon_path_type m ! nat ?i)"
    using assms(3) by (intro list_getitem_nat) auto
  moreover have "list_getitem (axon_path_type m) 0 = Inr (axon_path_type m ! 0)"
    using assms(3) by (auto simp: list_getitem_def)
  ultimately show ?thesis
    using assms(1,2)
    by (simp add: get_index_myelinated_sequence_def sequence_label_def rise_warning_def Let_def)
qed

text \<open>
  Claim C5. In the recording mode "nodes", \<open>get_index_myelinated_sequence\<close> returns "node"
  for every index. Otherwise index 0 gives the first entry of the stored sequence of section
  types, and every index \<open>n \<ge> 1\<close> gives the entry at position
  \<open>((n - 1) div (Nseg_per_sec + 1)) mod 11\<close>, a position among the eleven of the repeating
  pattern. (The stored sequence must have that entry and \<open>Nseg_per_sec + 1\<close> must not be
  zero: Python raises otherwise.)
\<close>

theorem get_index_myelinated_sequence_label:
  "(rec m = ''nodes'' \<longrightarrow> get_index_myelinated_sequence m n = ([], Inr ''node'')) \<and>
   (rec m \<noteq> ''nodes'' \<and> axon_path_type m \<noteq> [] \<longrightarrow>
      snd (get_index_myelinated_sequence m 0) = Inr (hd (axon_path_type m))) \<and>
   (rec m \<noteq> ''nodes'' \<and> 1 \<le> n \<and> Nseg_per_sec m \<noteq> - 1 \<and>
    nat (((n - 1) div (Nseg_per_sec m + 1)) mod 11) < length (axon_path_type m) \<longrightarrow>
      snd (get_index_myelinated_sequence m n) =
        Inr (axon_path_type m ! nat (((n - 1) div (Nseg_per_sec m + 1)) mod 11)) \<and>
      0 \<le> ((n - 1) div (Nseg_per_sec m + 1)) mod 11 \<and>
      ((n - 1) div (Nseg_per_sec m + 1)) mod 11 < 11)"
proof (intro conjI impI)
  assume "rec m = ''nodes''"
  then show "get_index_myelinated_sequence m n = ([], Inr ''node'')"
    by (simp add: get_index_myelinated_sequence_def)
next
  assume "rec m \<noteq> ''nodes'' \<and> axon_path_type m \<noteq> []"
  then show "snd (get_index_myelinated_sequence m 0) = Inr (hd (axon_path_type m))"
    by (cases "axon_path_type m")
       (simp_all add: get_index_myelinated_sequence_def list_getitem_def Let_def)
next
  let ?i = "((n - 1) div (Nseg_per_sec m + 1)) mod 11"
  assume a: "rec m \<noteq> ''nodes'' \<and> 1 \<le> n \<and> Nseg_per_sec m \<noteq> - 1 \<and>
             nat ?i < length (axon_path_type m)"
  have "0 \<le> ?i" by simp
  with a have "list_getitem (axon_path_type m) ?i = Inr (axon_path_type m ! nat ?i)"
    by (intro list_getitem_nat) auto
  with a show "snd (get_index_myelinated_sequence m n) = Inr (axon_path_type m ! nat ?i)"
    by (simp add: get_index_myelinated_sequence_def Let_def)
next
  show "0 \<le> ((n - 1) div (Nseg_per_sec m + 1)) mod 11" by simp
next
  show "((n - 1) div (Nseg_per_sec m + 1)) mod 11 < 11" by simp
qed

lemmas eval_myelinated = example_myelinated_def mrg_pattern_def get_index_myelinated_sequence_def
  list_getitem_def rise_warning_def Let_def

theorem get_index_myelinated_sequence_label_witness:
  "get_index_myelinated_sequence (example_myelinated ''nodes'' 23 mrg_pattern) 7 = ([], Inr ''node'') \<and>
   snd (get_index_myelinated_sequence (example_myelinated ''all'' 23 mrg_pattern) 0) = Inr ''node'' \<and>
   snd (get_index_myelinated_sequence (example_myelinated ''all'' 23 mrg_pattern) 7) = Inr ''STIN'' \<and>
   snd (get_index_myelinated_sequence (example_myelinated ''all'' 23 mrg_pattern) 22) = Inr ''MYSA''"
  using get_index_myelinated_sequence_label [of "example_myelinated ''nodes'' 23 mrg_pattern" 7]
        get_index_myelinated_sequence_label [of "example_myelinated ''all'' 23 mrg_pattern" 7]
        get_index_myelinated_sequence_label [of "example_myelinated ''all'' 23 mrg_pattern" 22]
  by (simp add: example_myelinated_def mrg_pattern_def)

text \<open>Outside the mode "nodes" the warning is logged exactly for \<open>n > len(x_rec)\<close>.\<close>

lemma index_warning_guard:
  "rec m \<noteq> ''nodes'' \<Longrightarrow>
   fst (get_index_myelinated_sequence m n) =
     (if n > int (length (x_rec m)) then [''index not in axon''] else [])"
  by (simp add: get_index_myelinated_sequence_def rise_warning_def Let_def)

text \<open>
  Claim C6 says that every index outside \<open>0 .. len(x_rec) - 1\<close> is reported by a warning.
  The test of the source is \<^verbatim>\<open>n > len(self["x_rec"])\<close>: on a result with 23 recorded points
  (valid indices 0 to 22) the index 23 gets a label and no warning, as the negative index
  -1 does; the warning "index not in axon" starts at index 24.
\<close>

theorem index_after_last_point_not_warned:
  "length (x_rec (example_myelinated ''all'' 23 mrg_pattern)) = 23 \<and>
   get_index_myelinated_sequence (example_myelinated ''all'' 23 mrg_pattern) 22 = ([], Inr ''MYSA'') \<and>
   get_index_myelinated_sequence (example_myelinated ''all'' 23 mrg_pattern) 23 = ([], Inr ''node'') \<and>
   get_index_myelinated_sequence (example_myelinated ''all'' 23 mrg_pattern) (- 1) = ([], Inr ''MYSA'') \<and>
   get_index_myelinated_sequence (example_myelinated ''all'' 23 mrg_pattern) 24 =
     ([''index not in axon''], Inr ''node'')"
  by (simp add: eval_myelinated)

text \<open>A stored sequence shorter than the pattern makes the subscript raise.\<close>

lemma index_beyond_short_sequence_raises:
  "get_index_myelinated_sequence (example_myelinated ''all'' 3 [''node'', ''MYSA'']) 5 =
     ([''index not in axon''], Inl IndexError)"
  by (simp add: example_myelinated_def get_index_myelinated_sequence_def
                  list_getitem_def rise_warning_def Let_def)

subsection \<open>The central node\<close>

lemma node_search_find:
  assumes "rec m \<noteq> ''nodes''" and "Nseg_per_sec m \<noteq> - 1" and "11 \<le> length (axon_path_type m)"
  shows "list_all (\<lambda>i. n_center + int i \<le> int (length (x_rec m))) offsets \<Longrightarrow> 0 \<le> n_center \<Longrightarrow>
         node_search m n_center offsets =
           ([], Inr (find (\<lambda>j. sequence_label m j = ''node'')
                      (concat (map (\<lambda>i. [n_center + int i, n_center - int i]) offsets))))"
proof (induction offsets)
  case Nil
  then show ?case by simp
next
  case (Cons i rest)
  have up: "get_index_myelinated_sequence m (n_center + int i) = ([], Inr (sequence_label m (n_center + int i)))"
    using Cons.prems by (simp add: get_index_label [OF assms])
  have down: "get_index_myelinated_sequence m (n_center - int i) = ([], Inr (sequence_label m (n_center - int i)))"
    using Cons.prems by (simp add: get_index_label [OF assms])
  from Cons have "node_search m n_center rest =
           ([], Inr (find (\<lambda>j. sequence_label m j = ''node'')
                      (concat (map (\<lambda>i. [n_center + int i, n_center - int i]) rest))))"
    by simp
  then show ?case
    by (simp add: up down)
qed

text \<open>
  Claim C7. In the recording mode "nodes", \<open>find_central_node_index\<close> returns
  \<open>len(x_rec) div 2\<close>. Otherwise (for a stored sequence that covers the pattern and
  \<open>Nseg_per_sec + 1\<close> not zero) it tries the indices \<open>n_center + i\<close>, \<open>n_center - i\<close> for
  \<open>i = 0, 1, ..., n_center - 1\<close> in this order and returns the first one whose section type
  is "node", without any warning; when none of them is a node it logs the warning
  "No node found in the axon" and returns \<open>n_center\<close>. It never raises.
\<close>

theorem find_central_node_index_search:
  "(rec m = ''nodes'' \<longrightarrow> find_central_node_index m = ([], Inr (int (length (x_rec m) div 2)))) \<and>
   (rec m \<noteq> ''nodes'' \<and> Nseg_per_sec m \<noteq> - 1 \<and> 11 \<le> length (axon_path_type m) \<longrightarrow>
      find_central_node_index m =
        (case find (\<lambda>j. sequence_label m j = ''node'') (search_order (length (x_rec m) div 2)) of
           Some j \<Rightarrow> ([], Inr j)
         | None \<Rightarrow> ([''No node found in the axon''], Inr (int (length (x_rec m) div 2)))))"
proof (intro conjI impI)
  assume "rec m = ''nodes''"
  then show "find_central_node_index m = ([], Inr (int (length (x_rec m) div 2)))"
    by (simp add: find_central_node_index_def)
next
  let ?c = "length (x_rec m) div 2"
  assume a: "rec m \<noteq> ''nodes'' \<and> Nseg_per_sec m \<noteq> - 1 \<and> 11 \<le> length (axon_path_type m)"
  have "list_all (\<lambda>i. int ?c + int i \<le> int (length (x_rec m))) [0..<?c]"
    by (auto simp: list_all_iff)
  then have "node_search m (int ?c) [0..<?c] =
           ([], Inr (find (\<lambda>j. sequence_label m j = ''node'') (search_order ?c)))"
    using a by (simp add: node_search_find search_order_def)
  then show "find_central_node_index m =
        (case find (\<lambda>j. sequence_label m j = ''node'') (search_order ?c) of
           Some j \<Rightarrow> ([], Inr j)
         | None \<Rightarrow> ([''No node found in the axon''], Inr (int ?c)))"
    using a by (simp add: find_central_node_index_def rise_warning_def Let_def split: option.splits)
qed

theorem find_central_node_index_search_witness:
  "find_central_node_index (example_myelinated ''nodes'' 23 mrg_pattern) = ([], Inr 11) \<and>
   find_central_node_index (example_myelinated ''all'' 23 mrg_pattern) = ([], Inr 2) \<and>
   find_central_node_index (example_myelinated ''all'' 5 shifted_pattern) =
     ([''No node found in the axon''], Inr 2)"
  using find_central_node_index_search [of "example_myelinated ''nodes'' 23 mrg_pattern"]
        find_central_node_index_search [of "example_myelinated ''all'' 23 mrg_pattern"]
        find_central_node_index_search [of "example_myelinated ''all'' 5 shifted_pattern"]
  by (simp add: example_myelinated_def mrg_pattern_def shifted_pattern_def search_order_def
                sequence_label_def upt_rec [of _ "numeral _"])

subsection \<open>The myelin properties\<close>








end
